theory Spec2Isabelle
  imports Main
begin

section \<open>The launcher script \<open>run_docker.py\<close>\<close>

text \<open>
  The script is a straight-line sequence of calls to the container engine, to the
  socket layer and to the file system. Its model is a function of a \<open>world\<close>: the answers
  the outside gives at each call site. Each call site runs at most once in a run of the
  script, so one answer per call site describes any run. What the script does to the
  outside (processes started, lines printed, sockets probed, the pause) is the trace it
  returns, in order; what it returns or raises is the result next to the trace.
\<close>

subsection \<open>Processes, exceptions, paths\<close>

text \<open>
  Starting a process either fails in the operating system (\<open>FileNotFoundError\<close> when the
  binary or the working directory is missing, some other \<open>OSError\<close> otherwise) or the
  process runs and exits with a return code and its output.
\<close>

datatype spawn_error = NotFound | OtherOS

datatype 'o proc_outcome = SpawnFailed spawn_error | Exited int 'o

text \<open>
  The exceptions of the script: \<open>CalledProcessError\<close> is the \<open>SubprocessError\<close> that
  \<open>subprocess.run(..., check=True)\<close> raises on a non-zero return code; the other two
  are not subclasses of \<open>SubprocessError\<close>.
\<close>

datatype exn = CalledProcessError | FileNotFoundError | OSError

fun is_SubprocessError :: "exn \<Rightarrow> bool" where
  "is_SubprocessError CalledProcessError = True"
| "is_SubprocessError FileNotFoundError = False"
| "is_SubprocessError OSError = False"

fun spawn_exn :: "spawn_error \<Rightarrow> exn" where
  "spawn_exn NotFound = FileNotFoundError"
| "spawn_exn OtherOS = OSError"

text \<open>
  \<open>ScriptDir\<close> is \<open>Path(__file__).parent.absolute()\<close>; \<open>Child p name\<close> is \<open>p / name\<close>.
  How a path prints (\<open>str\<close>) and what is found at it belong to the world.
\<close>

datatype path = ScriptDir | Child path string

datatype file_kind = RegularFile | Directory | OtherKind

record world =
  platform_system :: string
  docker_version :: "string proc_outcome"
  docker_info_check :: "string proc_outcome"
  docker_info_detect :: "string proc_outcome"
  connect_ex :: "int \<Rightarrow> int"
  fs_stat :: "path \<Rightarrow> file_kind option"
  path_str :: "path \<Rightarrow> string"
  build_mcp :: "string list proc_outcome"
  build_main :: "string list proc_outcome"
  docker_ps :: "string proc_outcome"
  docker_stop :: "string list proc_outcome"
  docker_rm :: "string list proc_outcome"
  docker_run :: "string list proc_outcome"

subsection \<open>Traces and results\<close>

datatype event =
    Print string
  | SubprocessRun "string list"
  | Popen "string list" "path option"
  | ConnectEx int
  | Sleep nat

type_synonym 'a io = "event list \<times> (exn + 'a)"

definition ret :: "'a \<Rightarrow> 'a io" where
  "ret x = ([], Inr x)"

definition raise :: "exn \<Rightarrow> 'a io" where
  "raise e = ([], Inl e)"

definition emit :: "event \<Rightarrow> unit io" where
  "emit ev = ([ev], Inr ())"

definition print :: "string \<Rightarrow> unit io" where
  "print s = emit (Print s)"

definition bind :: "'a io \<Rightarrow> ('a \<Rightarrow> 'b io) \<Rightarrow> 'b io" where
  "bind m f =
     (case m of
        (t, Inl e) \<Rightarrow> (t, Inl e)
      | (t, Inr x) \<Rightarrow> (case f x of (t', r) \<Rightarrow> (t @ t', r)))"

definition seq :: "unit io \<Rightarrow> 'b io \<Rightarrow> 'b io" where
  "seq m k = bind m (\<lambda>_. k)"

text \<open>\<open>try: m except: h\<close>, where the handler re-raises what it does not catch.\<close>

definition try_except :: "'a io \<Rightarrow> (exn \<Rightarrow> 'a io) \<Rightarrow> 'a io" where
  "try_except m h =
     (case m of
        (t, Inl e) \<Rightarrow> (case h e of (t', r) \<Rightarrow> (t @ t', r))
      | (t, Inr x) \<Rightarrow> (t, Inr x))"

subsection \<open>Strings\<close>

text \<open>
  Text is a list of 8-bit characters; \<open>str.lower\<close> and \<open>str.strip\<close> are modelled on
  ASCII, where \<open>strip\<close> removes the characters Python counts as whitespace.
\<close>

definition lower_char :: "char \<Rightarrow> char" where
  "lower_char c =
     (case map_of (zip ''ABCDEFGHIJKLMNOPQRSTUVWXYZ'' ''abcdefghijklmnopqrstuvwxyz'') c of
        Some l \<Rightarrow> l
      | None \<Rightarrow> c)"

definition lower :: "string \<Rightarrow> string" where
  "lower s = map lower_char s"

definition isspace :: "char \<Rightarrow> bool" where
  "isspace c = (let n = (of_char c :: nat) in n = 32 \<or> (9 \<le> n \<and> n \<le> 13) \<or> (28 \<le> n \<and> n \<le> 31))"

definition strip :: "string \<Rightarrow> string" where
  "strip s = rev (dropWhile isspace (rev (dropWhile isspace s)))"

fun startswith :: "'a list \<Rightarrow> 'a list \<Rightarrow> bool" where
  "startswith s [] = True"
| "startswith [] (c # cs) = False"
| "startswith (d # ds) (c # cs) = (d = c \<and> startswith ds cs)"

text \<open>\<open>str_in needle hay\<close> is Python's \<open>needle in hay\<close> on strings.\<close>

fun str_in :: "string \<Rightarrow> string \<Rightarrow> bool" where
  "str_in needle [] = (needle = [])"
| "str_in needle (c # cs) = (startswith (c # cs) needle \<or> str_in needle cs)"

text \<open>\<open>join sep xs\<close> is \<open>sep.join(xs)\<close>.\<close>

fun join :: "string \<Rightarrow> string list \<Rightarrow> string" where
  "join sep [] = []"
| "join sep [x] = x"
| "join sep (x # y # ys) = x @ sep @ join sep (y # ys)"

definition digit_char :: "nat \<Rightarrow> char" where
  "digit_char d = ''0123456789'' ! d"

function str_nat :: "nat \<Rightarrow> string" where
  "str_nat n = (if n < 10 then [digit_char n] else str_nat (n div 10) @ [digit_char (n mod 10)])"
  by pat_completeness auto
termination
  by (relation "measure (\<lambda>n. n)") auto

declare str_nat.simps [simp del]

text \<open>\<open>str\<close> of a Python integer.\<close>

definition str_int :: "int \<Rightarrow> string" where
  "str_int i = (if i < 0 then CHR ''-'' # str_nat (nat (- i)) else str_nat (nat i))"

text \<open>\<open>str\<close> of a Python list of integers, as an f-string formats it.\<close>

definition str_int_list :: "int list \<Rightarrow> string" where
  "str_int_list xs = ''['' @ join '', '' (map str_int xs) @ '']''"

subsection \<open>\<open>run_command\<close>\<close>

text \<open>
  \<open>run_command\<close> prints the command, starts it with \<open>Popen\<close> (which raises when the
  process cannot be started; nothing catches that here), echoes each line of output
  stripped, and returns the return code. The outcome of the process is the argument
  \<open>oc\<close>, its output the decoded lines.
\<close>

definition run_command :: "string list proc_outcome \<Rightarrow> string list \<Rightarrow> path option \<Rightarrow> int io" where
  "run_command oc command cwd =
     seq (print (''Running: '' @ join '' '' command))
     (seq (emit (Popen command cwd))
       (case oc of
          SpawnFailed e \<Rightarrow> raise (spawn_exn e)
        | Exited returncode lines \<Rightarrow>
            (map (\<lambda>line. Print (strip line)) lines, Inr returncode)))"

text \<open>
  \<open>subprocess.run(command, check=True, ...)\<close> with the output captured: the captured
  standard output when the return code is 0, \<open>CalledProcessError\<close> otherwise.
\<close>

definition subprocess_run :: "string proc_outcome \<Rightarrow> string list \<Rightarrow> string io" where
  "subprocess_run oc command =
     seq (emit (SubprocessRun command))
       (case oc of
          SpawnFailed e \<Rightarrow> raise (spawn_exn e)
        | Exited returncode out \<Rightarrow>
            if returncode \<noteq> 0 then raise CalledProcessError else ret out)"

subsection \<open>\<open>check_docker\<close>\<close>

definition check_docker :: "world \<Rightarrow> bool io" where
  "check_docker w =
     try_except
       (bind (subprocess_run (docker_version w) [''docker'', ''--version'']) (\<lambda>_.
        bind (subprocess_run (docker_info_check w) [''docker'', ''info'']) (\<lambda>_.
        ret True)))
       (\<lambda>e. if is_SubprocessError e then
               seq (print ''Error: Docker is not running. Please start Docker Desktop or Docker service.'')
                 (ret False)
             else if e = FileNotFoundError then
               seq (print ''Error: Docker is not installed or not in PATH'')
                 (ret False)
             else raise e)"

subsection \<open>\<open>detect_windows_docker_environment\<close>\<close>

text \<open>The bare \<open>except:\<close> catches every exception of the query.\<close>

definition detect_windows_docker_environment :: "world \<Rightarrow> string io" where
  "detect_windows_docker_environment w =
     (if platform_system w \<noteq> ''Windows'' then ret ''standard''
      else
        try_except
          (bind (subprocess_run (docker_info_detect w) [''docker'', ''info'']) (\<lambda>stdout.
             if str_in ''wsl'' (lower stdout) \<or> str_in ''microsoft'' (lower stdout) then
               ret ''docker-desktop''
             else if str_in ''virtualbox'' (lower stdout) \<or> str_in ''docker machine'' (lower stdout) then
               ret ''docker-toolbox''
             else ret ''docker-desktop''))
          (\<lambda>e. ret ''docker-desktop''))"

subsection \<open>\<open>is_port_available\<close>\<close>

text \<open>
  \<open>connect_ex\<close> returns an error indicator instead of raising: 0 when the connection to
  the port on localhost was made, so that something listens there. The model covers the
  probes that return; a probe that raises (no socket left, \<open>localhost\<close> not resolved) is
  outside it, as are a raising \<open>Path.exists\<close> and a raising \<open>print\<close>.
\<close>

definition is_port_available :: "world \<Rightarrow> int \<Rightarrow> bool io" where
  "is_port_available w port =
     seq (emit (ConnectEx port)) (ret (connect_ex w port \<noteq> 0))"

text \<open>The comprehension \<open>[port for port in ports if not is_port_available(port)]\<close>.\<close>

fun unavailable_among :: "world \<Rightarrow> int list \<Rightarrow> int list io" where
  "unavailable_among w [] = ret []"
| "unavailable_among w (port # ports) =
     bind (is_port_available w port) (\<lambda>available.
     bind (unavailable_among w ports) (\<lambda>rest.
     ret (if \<not> available then port # rest else rest)))"

subsection \<open>\<open>main\<close>\<close>

text \<open>
  \<open>Path.exists\<close> asks whether anything at all is found at the path.
\<close>

definition exists :: "world \<Rightarrow> path \<Rightarrow> bool" where
  "exists w p = (fs_stat w p \<noteq> None)"

text \<open>
  \<open>main\<close> follows the source statement by statement; the value it returns is the exit
  code handed to \<open>exit\<close>.
\<close>

definition main :: "world \<Rightarrow> int io" where
  "main w =
     bind (check_docker w) (\<lambda>docker_ok.
     if \<not> docker_ok then ret 1
     else
     bind (detect_windows_docker_environment w) (\<lambda>docker_env.
     seq (print (''Detected Docker environment: '' @ docker_env))
    (let required_ports = [8501, 8100] in
     bind (unavailable_among w required_ports) (\<lambda>unavailable_ports.
     if unavailable_ports \<noteq> [] then
       seq (print (''Error: The following ports are already in use: '' @ str_int_list unavailable_ports))
      (seq (print ''Please stop the services using these ports or modify the port mappings.'')
      (ret 1))
     else
    (let base_dir = ScriptDir;
         env_file = Child base_dir ''.env''
     in
     bind (if exists w env_file then
             seq (print (''Using environment file: '' @ path_str w env_file))
            (ret [''--env-file'', path_str w env_file])
           else
             seq (print ''No .env file found. Continuing without environment variables.'')
            (ret [])) (\<lambda>env_args.
     seq (print (CHR 0x0A # ''=== Building Archon MCP container ===''))
    (let mcp_dir = Child base_dir ''mcp'' in
     bind (run_command (build_mcp w) [''docker'', ''build'', ''-t'', ''archon-mcp:latest'', ''.''] (Some mcp_dir)) (\<lambda>rc_mcp.
     if rc_mcp \<noteq> 0 then
       seq (print ''Error building MCP container'') (ret 1)
     else
     seq (print (CHR 0x0A # ''=== Building main Archon container ===''))
    (bind (run_command (build_main w) [''docker'', ''build'', ''-t'', ''archon:latest'', ''.''] (Some base_dir)) (\<lambda>rc_main.
     if rc_main \<noteq> 0 then
       seq (print ''Error building main Archon container'') (ret 1)
     else
     seq (try_except
            (bind (subprocess_run (docker_ps w) [''docker'', ''ps'', ''-q'', ''--filter'', ''name=archon-container'']) (\<lambda>stdout.
               if strip stdout \<noteq> [] then
                 seq (print (CHR 0x0A # ''=== Stopping existing Archon container ===''))
                (bind (run_command (docker_stop w) [''docker'', ''stop'', ''archon-container''] None) (\<lambda>_.
                 bind (run_command (docker_rm w) [''docker'', ''rm'', ''archon-container''] None) (\<lambda>_.
                 ret ())))
               else ret ()))
            (\<lambda>e. if is_SubprocessError e then ret () else raise e))
    (seq (print (CHR 0x0A # ''=== Starting Archon container ===''))
    (let cmd = [''docker'', ''run'', ''-d'',
                ''--name'', ''archon-container'',
                ''-p'', ''8501:8501'',
                ''-p'', ''8100:8100'']
     in
     bind (if docker_env = ''docker-desktop'' then
             ret (cmd @ [''--add-host'', ''host.docker.internal:host-gateway''])
           else if docker_env = ''docker-toolbox'' then
             seq (print (''Note: For Docker Toolbox, you may need to use the VM'' @ [CHR 0x27] @ ''s IP address instead of localhost''))
            (ret cmd)
           else ret cmd) (\<lambda>cmd.
    (let cmd = (if env_args \<noteq> [] then cmd @ env_args else cmd);
         cmd = cmd @ [''archon:latest'']
     in
     bind (run_command (docker_run w) cmd None) (\<lambda>rc_run.
     if rc_run \<noteq> 0 then
       seq (print ''Error starting Archon container'') (ret 1)
     else
     seq (emit (Sleep 2))
    (seq (print (CHR 0x0A # ''=== Archon is now running! ===''))
    (seq (if docker_env = ''docker-toolbox'' then
            seq (print ''-> Using Docker Toolbox:'')
           (seq (print (''   To access the Streamlit UI, you need to use the Docker VM'' @ [CHR 0x27] @ ''s IP address.''))
           (seq (print (''   Run '' @ [CHR 0x27] @ ''docker-machine ip default'' @ [CHR 0x27] @ '' to get this IP, then access:''))
           (print ''   http://<docker-machine-ip>:8501'')))
          else
            print ''-> Access the Streamlit UI at: http://localhost:8501'')
    (seq (print ''-> MCP container is ready to use - see the MCP tab in the UI.'')
    (seq (print (CHR 0x0A # ''To stop Archon, run: docker stop archon-container && docker rm archon-container''))
    (ret 0))))))))))))))))))))"

subsection \<open>Reading a run\<close>

text \<open>
  The commands the script starts through \<open>run_command\<close>, in order, and their kinds: the
  image builds, the stop and the remove of the old container, the run of the new one.
  \<open>commands\<close>, \<open>messages\<close> and \<open>result\<close> read them, the printed lines and the returned
  exit code (or the escaping exception) off a run.
\<close>

fun popen_commands :: "event list \<Rightarrow> string list list" where
  "popen_commands [] = []"
| "popen_commands (Popen command cwd # t) = command # popen_commands t"
| "popen_commands (_ # t) = popen_commands t"

fun printed :: "event list \<Rightarrow> string list" where
  "printed [] = []"
| "printed (Print s # t) = s # printed t"
| "printed (_ # t) = printed t"

definition commands :: "'a io \<Rightarrow> string list list" where
  "commands m = popen_commands (fst m)"

definition messages :: "'a io \<Rightarrow> string list" where
  "messages m = printed (fst m)"

definition result :: "'a io \<Rightarrow> exn + 'a" where
  "result m = snd m"

definition is_build :: "string list \<Rightarrow> bool" where
  "is_build command = startswith command [''docker'', ''build'']"

definition is_stop_or_rm :: "string list \<Rightarrow> bool" where
  "is_stop_or_rm command =
     (startswith command [''docker'', ''stop''] \<or> startswith command [''docker'', ''rm''])"

definition is_run :: "string list \<Rightarrow> bool" where
  "is_run command = startswith command [''docker'', ''run'']"

text \<open>\<open>has_args args command\<close>: the arguments \<open>args\<close> stand next to each other in the command.\<close>

fun has_args :: "string list \<Rightarrow> string list \<Rightarrow> bool" where
  "has_args args [] = (args = [])"
| "has_args args (a # as) = (startswith (a # as) args \<or> has_args args as)"

definition has_host_gateway_alias :: "string list \<Rightarrow> bool" where
  "has_host_gateway_alias command =
     has_args [''--add-host'', ''host.docker.internal:host-gateway''] command"

text \<open>
  \<open>without_alias\<close> drops the host-gateway alias flag from a command, so that commands
  can be compared up to that flag.
\<close>

fun without_alias :: "string list \<Rightarrow> string list" where
  "without_alias (a # b # cs) =
     (if a = ''--add-host'' \<and> b = ''host.docker.internal:host-gateway'' then without_alias cs
      else a # without_alias (b # cs))"
| "without_alias cs = cs"

text \<open>
  The final instructions are the access lines printed after the container has started
  (one line for the desktop and standard environments, four for Docker Toolbox).
\<close>

definition is_final_instruction :: "string \<Rightarrow> bool" where
  "is_final_instruction s =
     (s \<in> set [''-> Using Docker Toolbox:'',
                ''   To access the Streamlit UI, you need to use the Docker VM'' @ [CHR 0x27] @ ''s IP address.'',
                ''   Run '' @ [CHR 0x27] @ ''docker-machine ip default'' @ [CHR 0x27] @ '' to get this IP, then access:'',
                ''   http://<docker-machine-ip>:8501'',
                ''-> Access the Streamlit UI at: http://localhost:8501''])"

text \<open>The echo of the run command, which shows the flags of the command.\<close>

definition is_run_echo :: "string \<Rightarrow> bool" where
  "is_run_echo s = startswith s ''Running: docker run''"

definition is_environment_line :: "string \<Rightarrow> bool" where
  "is_environment_line s =
     (startswith s ''Detected Docker environment: '' \<or>
      s = ''Note: For Docker Toolbox, you may need to use the VM'' @ [CHR 0x27] @ ''s IP address instead of localhost'')"

text \<open>
  The printed lines in which two runs may differ because of the detected environment:
  \<open>stated_difference\<close> are the final instructions and the echo of the run command;
  \<open>environment_dependent\<close> adds the line that names the environment and the Docker
  Toolbox note printed before the run.
\<close>

definition stated_difference :: "string \<Rightarrow> bool" where
  "stated_difference s = (is_final_instruction s \<or> is_run_echo s)"

definition environment_dependent :: "string \<Rightarrow> bool" where
  "environment_dependent s = (stated_difference s \<or> is_environment_line s)"

subsection \<open>The steps of \<open>main\<close>, named\<close>

text \<open>
  For the proofs, the rest of \<open>main\<close> from each of its steps on is given a name:
  \<open>main_from_ports\<close> is \<open>main\<close> from the port check on, and so on down to the run step.
  Lemma \<open>main_steps\<close> below shows that \<open>main\<close> is the engine check and the detection
  followed by \<open>main_from_ports\<close>. The detected environment and the environment-file
  arguments are the variables \<open>docker_env\<close> and \<open>env_args\<close> of the source.
\<close>

definition main_from_run :: "world \<Rightarrow> string \<Rightarrow> string list \<Rightarrow> int io" where
  "main_from_run w docker_env env_args =
     seq (print (CHR 0x0A # ''=== Starting Archon container ===''))
    (let cmd = [''docker'', ''run'', ''-d'',
                ''--name'', ''archon-container'',
                ''-p'', ''8501:8501'',
                ''-p'', ''8100:8100'']
     in
     bind (if docker_env = ''docker-desktop'' then
             ret (cmd @ [''--add-host'', ''host.docker.internal:host-gateway''])
           else if docker_env = ''docker-toolbox'' then
             seq (print (''Note: For Docker Toolbox, you may need to use the VM'' @ [CHR 0x27] @ ''s IP address instead of localhost''))
            (ret cmd)
           else ret cmd) (\<lambda>cmd.
    (let cmd = (if env_args \<noteq> [] then cmd @ env_args else cmd);
         cmd = cmd @ [''archon:latest'']
     in
     bind (run_command (docker_run w) cmd None) (\<lambda>rc_run.
     if rc_run \<noteq> 0 then
       seq (print ''Error starting Archon container'') (ret 1)
     else
     seq (emit (Sleep 2))
    (seq (print (CHR 0x0A # ''=== Archon is now running! ===''))
    (seq (if docker_env = ''docker-toolbox'' then
            seq (print ''-> Using Docker Toolbox:'')
           (seq (print (''   To access the Streamlit UI, you need to use the Docker VM'' @ [CHR 0x27] @ ''s IP address.''))
           (seq (print (''   Run '' @ [CHR 0x27] @ ''docker-machine ip default'' @ [CHR 0x27] @ '' to get this IP, then access:''))
           (print ''   http://<docker-machine-ip>:8501'')))
          else
            print ''-> Access the Streamlit UI at: http://localhost:8501'')
    (seq (print ''-> MCP container is ready to use - see the MCP tab in the UI.'')
    (seq (print (CHR 0x0A # ''To stop Archon, run: docker stop archon-container && docker rm archon-container''))
    (ret 0)))))))))"

definition replace_running :: "world \<Rightarrow> unit io" where
  "replace_running w =
     try_except
       (bind (subprocess_run (docker_ps w) [''docker'', ''ps'', ''-q'', ''--filter'', ''name=archon-container'']) (\<lambda>stdout.
          if strip stdout \<noteq> [] then
            seq (print (CHR 0x0A # ''=== Stopping existing Archon container ===''))
           (bind (run_command (docker_stop w) [''docker'', ''stop'', ''archon-container''] None) (\<lambda>_.
            bind (run_command (docker_rm w) [''docker'', ''rm'', ''archon-container''] None) (\<lambda>_.
            ret ())))
          else ret ()))
       (\<lambda>e. if is_SubprocessError e then ret () else raise e)"

definition main_from_replace :: "world \<Rightarrow> string \<Rightarrow> string list \<Rightarrow> int io" where
  "main_from_replace w docker_env env_args =
     seq (replace_running w) (main_from_run w docker_env env_args)"

definition main_from_build_main :: "world \<Rightarrow> string \<Rightarrow> string list \<Rightarrow> int io" where
  "main_from_build_main w docker_env env_args =
     seq (print (CHR 0x0A # ''=== Building main Archon container ===''))
    (bind (run_command (build_main w) [''docker'', ''build'', ''-t'', ''archon:latest'', ''.''] (Some ScriptDir)) (\<lambda>rc_main.
     if rc_main \<noteq> 0 then
       seq (print ''Error building main Archon container'') (ret 1)
     else main_from_replace w docker_env env_args))"

definition main_from_build_mcp :: "world \<Rightarrow> string \<Rightarrow> string list \<Rightarrow> int io" where
  "main_from_build_mcp w docker_env env_args =
     seq (print (CHR 0x0A # ''=== Building Archon MCP container ===''))
    (bind (run_command (build_mcp w) [''docker'', ''build'', ''-t'', ''archon-mcp:latest'', ''.''] (Some (Child ScriptDir ''mcp''))) (\<lambda>rc_mcp.
     if rc_mcp \<noteq> 0 then
       seq (print ''Error building MCP container'') (ret 1)
     else main_from_build_main w docker_env env_args))"

definition find_env_args :: "world \<Rightarrow> string list io" where
  "find_env_args w =
     (if exists w (Child ScriptDir ''.env'') then
        seq (print (''Using environment file: '' @ path_str w (Child ScriptDir ''.env'')))
       (ret [''--env-file'', path_str w (Child ScriptDir ''.env'')])
      else
        seq (print ''No .env file found. Continuing without environment variables.'')
       (ret []))"

definition main_from_env_file :: "world \<Rightarrow> string \<Rightarrow> int io" where
  "main_from_env_file w docker_env =
     bind (find_env_args w) (\<lambda>env_args. main_from_build_mcp w docker_env env_args)"

definition main_from_ports :: "world \<Rightarrow> string \<Rightarrow> int io" where
  "main_from_ports w docker_env =
     bind (unavailable_among w [8501, 8100]) (\<lambda>unavailable_ports.
     if unavailable_ports \<noteq> [] then
       seq (print (''Error: The following ports are already in use: '' @ str_int_list unavailable_ports))
      (seq (print ''Please stop the services using these ports or modify the port mappings.'')
      (ret 1))
     else main_from_env_file w docker_env)"

subsection \<open>What the outside answers\<close>

text \<open>Answers of the outside that the statements below are about.\<close>

fun exited_ok :: "'o proc_outcome \<Rightarrow> bool" where
  "exited_ok (Exited returncode out) = (returncode = 0)"
| "exited_ok (SpawnFailed e) = False"

fun exited_nonzero :: "'o proc_outcome \<Rightarrow> bool" where
  "exited_nonzero (Exited returncode out) = (returncode \<noteq> 0)"
| "exited_nonzero (SpawnFailed e) = False"

fun started :: "'o proc_outcome \<Rightarrow> bool" where
  "started (Exited returncode out) = True"
| "started (SpawnFailed e) = False"

text \<open>The engine binary is there and the daemon answers.\<close>

definition engine_ok :: "world \<Rightarrow> bool" where
  "engine_ok w = (exited_ok (docker_version w) \<and> exited_ok (docker_info_check w))"

text \<open>A port is occupied when something accepts the connection to it.\<close>

definition occupied :: "world \<Rightarrow> int \<Rightarrow> bool" where
  "occupied w port = (connect_ex w port = 0)"

definition ports_free :: "world \<Rightarrow> bool" where
  "ports_free w = (\<not> occupied w 8501 \<and> \<not> occupied w 8100)"

definition builds_ok :: "world \<Rightarrow> bool" where
  "builds_ok w = (exited_ok (build_mcp w) \<and> exited_ok (build_main w))"

text \<open>
  The container-list query reports a running container when it exits with 0 and its
  output, stripped, is not empty; it reports none when it exits with 0 and prints nothing.
\<close>

fun reports_container :: "string proc_outcome \<Rightarrow> bool" where
  "reports_container (Exited returncode out) = (returncode = 0 \<and> strip out \<noteq> [])"
| "reports_container (SpawnFailed e) = False"

fun reports_none :: "string proc_outcome \<Rightarrow> bool" where
  "reports_none (Exited returncode out) = (returncode = 0 \<and> strip out = [])"
| "reports_none (SpawnFailed e) = False"

text \<open>The environment the script detects, and the arguments it derives from \<open>.env\<close>.\<close>

definition detected :: "world \<Rightarrow> string" where
  "detected w =
     (case result (detect_windows_docker_environment w) of Inr docker_env \<Rightarrow> docker_env | Inl e \<Rightarrow> [])"

definition env_file :: path where
  "env_file = Child ScriptDir ''.env''"

definition env_file_args :: "world \<Rightarrow> string list" where
  "env_file_args w = (if exists w env_file then [''--env-file'', path_str w env_file] else [])"

text \<open>The run command for a detected environment and environment-file arguments.\<close>

definition docker_run_command :: "string \<Rightarrow> string list \<Rightarrow> string list" where
  "docker_run_command docker_env env_args =
     [''docker'', ''run'', ''-d'', ''--name'', ''archon-container'',
      ''-p'', ''8501:8501'', ''-p'', ''8100:8100'']
     @ (if docker_env = ''docker-desktop'' then [''--add-host'', ''host.docker.internal:host-gateway''] else [])
     @ env_args @ [''archon:latest'']"

text \<open>
  The replace step runs to its end when the query exits with a non-zero code (swallowed),
  when it reports no container, or when it reports one and both the stop and the remove
  command can be started.
\<close>

definition replace_completes :: "world \<Rightarrow> bool" where
  "replace_completes w =
     (exited_nonzero (docker_ps w) \<or> reports_none (docker_ps w) \<or>
      (reports_container (docker_ps w) \<and> started (docker_stop w) \<and> started (docker_rm w)))"

definition replace_commands :: "world \<Rightarrow> string list list" where
  "replace_commands w =
     (if reports_container (docker_ps w) then
        [''docker'', ''stop'', ''archon-container''] #
        (if started (docker_stop w) then [[''docker'', ''rm'', ''archon-container'']] else [])
      else [])"

text \<open>
  The run step is reached when the engine check passes, both ports are free, both builds
  exit with 0 and the replace step runs to its end.
\<close>

definition reaches_run :: "world \<Rightarrow> bool" where
  "reaches_run w = (engine_ok w \<and> ports_free w \<and> builds_ok w \<and> replace_completes w)"

text \<open>
  The failures to start a process that no handler of the script catches: an \<open>OSError\<close>
  other than \<open>FileNotFoundError\<close> in the engine check, and any failure to start a build,
  the container-list query, the stop, the remove or the run command, at a step that the
  run reaches.
\<close>

definition exception_escapes :: "world \<Rightarrow> bool" where
  "exception_escapes w =
     (docker_version w = SpawnFailed OtherOS \<or>
      (exited_ok (docker_version w) \<and> docker_info_check w = SpawnFailed OtherOS) \<or>
      (engine_ok w \<and> ports_free w \<and>
        (\<not> started (build_mcp w) \<or>
         (exited_ok (build_mcp w) \<and>
           (\<not> started (build_main w) \<or>
            (exited_ok (build_main w) \<and>
              (\<not> replace_completes w \<or> \<not> started (docker_run w))))))))"

text \<open>
  The failures that the script handles: the engine binary is missing or an engine query
  exits with a non-zero code; a required port is occupied; a build exits with a non-zero
  code; the run command exits with a non-zero code.
\<close>

definition handled_failure :: "world \<Rightarrow> bool" where
  "handled_failure w =
     (docker_version w = SpawnFailed NotFound \<or> exited_nonzero (docker_version w) \<or>
      (exited_ok (docker_version w) \<and>
        (docker_info_check w = SpawnFailed NotFound \<or> exited_nonzero (docker_info_check w))) \<or>
      (engine_ok w \<and>
        (\<not> ports_free w \<or> exited_nonzero (build_mcp w) \<or>
         (exited_ok (build_mcp w) \<and>
           (exited_nonzero (build_main w) \<or>
            (exited_ok (build_main w) \<and> replace_completes w \<and> exited_nonzero (docker_run w)))))))"

text \<open>The last line the script prints on each of its handled failures.\<close>

definition is_error_message :: "string \<Rightarrow> bool" where
  "is_error_message s =
     (s \<in> set [''Error: Docker is not running. Please start Docker Desktop or Docker service.'',
                ''Error: Docker is not installed or not in PATH'',
                ''Please stop the services using these ports or modify the port mappings.'',
                ''Error building MCP container'',
                ''Error building main Archon container'',
                ''Error starting Archon container''])"

text \<open>
  A run reports its failure when, if it returns at all, it returns 0 or 1, and before it
  returns 1 the last line it prints is one of the error messages.
\<close>

definition failure_is_reported :: "int io \<Rightarrow> bool" where
  "failure_is_reported m =
     (case result m of
        Inl e \<Rightarrow> True
      | Inr rc \<Rightarrow>
          (rc = 0 \<or> rc = 1) \<and>
          (rc = 1 \<longrightarrow> messages m \<noteq> [] \<and> is_error_message (last (messages m))))"

subsection \<open>Example worlds\<close>

fun posix_str :: "path \<Rightarrow> string" where
  "posix_str ScriptDir = ''/opt/archon''"
| "posix_str (Child p name) = posix_str p @ ''/'' @ name"

text \<open>
  A Linux host on which everything works: the engine answers, both ports are free
  (\<open>connect_ex\<close> returns \<open>ECONNREFUSED\<close>), there is no \<open>.env\<close>, both builds and the run
  exit with 0, and no container of the name is running.
\<close>

definition world_ok :: world where
  "world_ok =
     \<lparr> platform_system = ''Linux'',
       docker_version = Exited 0 ''Docker version 24.0.7'',
       docker_info_check = Exited 0 ''Server: Docker Engine'',
       docker_info_detect = Exited 0 ''Server: Docker Engine'',
       connect_ex = (\<lambda>port. 111),
       fs_stat = (\<lambda>p. if p = ScriptDir \<or> p = Child ScriptDir ''mcp'' then Some Directory else None),
       path_str = posix_str,
       build_mcp = Exited 0 [''Successfully built''],
       build_main = Exited 0 [''Successfully built''],
       docker_ps = Exited 0 [],
       docker_stop = Exited 0 [''archon-container''],
       docker_rm = Exited 0 [''archon-container''],
       docker_run = Exited 0 [''4f1c2d3e5a6b''] \<rparr>"

text \<open>The same host with a container of the name already running.\<close>

definition world_running :: world where
  "world_running = world_ok \<lparr> docker_ps := Exited 0 (''9a8b7c6d5e4f'' @ [CHR 0x0A]) \<rparr>"

text \<open>The same host where the run command exits with 125.\<close>

definition world_run_fails :: world where
  "world_run_fails = world_ok \<lparr> docker_run := Exited 125 [''docker: Error response from daemon''] \<rparr>"

text \<open>A host without the engine binary, on which port 8501 is occupied.\<close>

definition world_no_engine :: world where
  "world_no_engine =
     world_ok \<lparr> docker_version := SpawnFailed NotFound,
                connect_ex := (\<lambda>port. if port = 8501 then 0 else 111) \<rparr>"

text \<open>A host whose daemon does not answer.\<close>

definition world_daemon_down :: world where
  "world_daemon_down = world_ok \<lparr> docker_info_check := Exited 1 [] \<rparr>"

text \<open>The working host with port 8100 occupied.\<close>

definition world_port_busy :: world where
  "world_port_busy = world_ok \<lparr> connect_ex := (\<lambda>port. if port = 8100 then 0 else 111) \<rparr>"

text \<open>The working host with a regular file, and with a directory, named \<open>.env\<close>.\<close>

definition world_env_file :: world where
  "world_env_file = world_ok \<lparr> fs_stat := (\<lambda>p. if p = Child ScriptDir ''.env'' then Some RegularFile else fs_stat world_ok p) \<rparr>"

definition world_env_dir :: world where
  "world_env_dir = world_ok \<lparr> fs_stat := (\<lambda>p. if p = Child ScriptDir ''.env'' then Some Directory else fs_stat world_ok p) \<rparr>"

text \<open>Windows hosts: Docker Desktop on WSL 2, Docker Toolbox, and one whose query fails.\<close>

definition world_wsl :: world where
  "world_wsl =
     world_ok \<lparr> platform_system := ''Windows'',
                docker_info_detect := Exited 0 ''Kernel: WSL2'' \<rparr>"

definition world_toolbox :: world where
  "world_toolbox =
     world_ok \<lparr> platform_system := ''Windows'',
                docker_info_detect := Exited 0 ''OS: VirtualBox'' \<rparr>"

definition world_windows_plain :: world where
  "world_windows_plain =
     world_ok \<lparr> platform_system := ''Windows'',
                docker_info_detect := Exited 0 ''Server: Engine'' \<rparr>"

definition world_windows_query_fails :: world where
  "world_windows_query_fails =
     world_ok \<lparr> platform_system := ''Windows'', docker_info_detect := Exited 1 [] \<rparr>"

text \<open>The working host without the \<open>mcp\<close> directory: the first build cannot be started.\<close>

definition world_no_mcp_dir :: world where
  "world_no_mcp_dir =
     world_ok \<lparr> fs_stat := (\<lambda>p. if p = ScriptDir then Some Directory else None),
                build_mcp := SpawnFailed NotFound \<rparr>"

text \<open>The host with the running container on which the stop command cannot be started.\<close>

definition world_stop_unstartable :: world where
  "world_stop_unstartable = world_running \<lparr> docker_stop := SpawnFailed OtherOS \<rparr>"

text \<open>The host with the running container on which the engine binary is gone by the remove.\<close>

definition world_rm_missing :: world where
  "world_rm_missing = world_running \<lparr> docker_rm := SpawnFailed NotFound \<rparr>"

text \<open>The working host on which the container-list query cannot be started.\<close>

definition world_ps_unstartable :: world where
  "world_ps_unstartable = world_ok \<lparr> docker_ps := SpawnFailed OtherOS \<rparr>"

section \<open>Reading runs of the building blocks\<close>

text \<open>
  What a composed run starts, prints and returns follows from what its parts do; the
  lemmas below compute the three readings of every building block.
\<close>

lemma popen_commands_append [simp]: "popen_commands (s @ t) = popen_commands s @ popen_commands t"
  by (induction s rule: popen_commands.induct) simp_all

lemma printed_append [simp]: "printed (s @ t) = printed s @ printed t"
  by (induction s rule: printed.induct) simp_all

lemma commands_bind: "commands (bind m f) = commands m @ (case result m of Inl e \<Rightarrow> [] | Inr x \<Rightarrow> commands (f x))"
  by (simp add: bind_def commands_def result_def split: prod.splits sum.splits)
lemma messages_bind: "messages (bind m f) = messages m @ (case result m of Inl e \<Rightarrow> [] | Inr x \<Rightarrow> messages (f x))"
  by (simp add: bind_def messages_def result_def split: prod.splits sum.splits)
lemma result_bind: "result (bind m f) = (case result m of Inl e \<Rightarrow> Inl e | Inr x \<Rightarrow> result (f x))"
  by (simp add: bind_def result_def split: prod.splits sum.splits)

lemma commands_seq: "commands (seq m k) = commands m @ (case result m of Inl e \<Rightarrow> [] | Inr x \<Rightarrow> commands k)"
  by (simp add: seq_def commands_bind)
lemma messages_seq: "messages (seq m k) = messages m @ (case result m of Inl e \<Rightarrow> [] | Inr x \<Rightarrow> messages k)"
  by (simp add: seq_def messages_bind)
lemma result_seq: "result (seq m k) = (case result m of Inl e \<Rightarrow> Inl e | Inr x \<Rightarrow> result k)"
  by (simp add: seq_def result_bind)

lemma commands_try_except: "commands (try_except m h) = commands m @ (case result m of Inl e \<Rightarrow> commands (h e) | Inr x \<Rightarrow> [])"
  by (simp add: try_except_def commands_def result_def split: prod.splits sum.splits)
lemma messages_try_except: "messages (try_except m h) = messages m @ (case result m of Inl e \<Rightarrow> messages (h e) | Inr x \<Rightarrow> [])"
  by (simp add: try_except_def messages_def result_def split: prod.splits sum.splits)
lemma result_try_except: "result (try_except m h) = (case result m of Inl e \<Rightarrow> result (h e) | Inr x \<Rightarrow> Inr x)"
  by (simp add: try_except_def result_def split: prod.splits sum.splits)

lemma obs_pair: "commands (t, r) = popen_commands t" "messages (t, r) = printed t" "result (t, r) = r"
  by (simp_all add: commands_def messages_def result_def)
lemma obs_emit: "commands (emit ev) = popen_commands [ev]" "messages (emit ev) = printed [ev]" "result (emit ev) = Inr ()"
  by (simp_all add: emit_def commands_def messages_def result_def)
lemma obs_ret: "commands (ret x) = []" "messages (ret x) = []" "result (ret x) = Inr x"
  by (simp_all add: ret_def commands_def messages_def result_def)
lemma obs_raise: "commands (raise e) = []" "messages (raise e) = []" "result (raise e) = Inl e"
  by (simp_all add: raise_def commands_def messages_def result_def)
lemma obs_print: "commands (print s) = []" "messages (print s) = [s]" "result (print s) = Inr ()"
  by (simp_all add: print_def emit_def commands_def messages_def result_def)

lemmas obs_monad = commands_bind messages_bind result_bind commands_seq messages_seq result_seq
  commands_try_except messages_try_except result_try_except obs_ret obs_raise obs_print obs_emit obs_pair

lemma printed_map_Print: "printed (map (\<lambda>l. Print (f l)) ls) = map f ls"
  by (induction ls) simp_all
lemma popen_commands_map_Print: "popen_commands (map (\<lambda>l. Print (f l)) ls) = []"
  by (induction ls) simp_all

lemma commands_run_command: "commands (run_command oc c cwd) = [c]"
  by (cases oc) (simp_all add: run_command_def obs_monad printed_map_Print popen_commands_map_Print)
lemma result_run_command:
  "result (run_command oc c cwd) = (case oc of SpawnFailed e \<Rightarrow> Inl (spawn_exn e) | Exited rc ls \<Rightarrow> Inr rc)"
  by (cases oc) (simp_all add: run_command_def obs_monad printed_map_Print popen_commands_map_Print)
lemma messages_run_command:
  "messages (run_command oc c cwd) = (''Running: '' @ join '' '' c) #
     (case oc of SpawnFailed e \<Rightarrow> [] | Exited rc ls \<Rightarrow> map strip ls)"
  by (cases oc) (simp_all add: run_command_def obs_monad printed_map_Print popen_commands_map_Print)

lemma commands_subprocess_run: "commands (subprocess_run oc c) = []"
  by (cases oc) (simp_all add: subprocess_run_def obs_monad printed_map_Print popen_commands_map_Print)
lemma messages_subprocess_run: "messages (subprocess_run oc c) = []"
  by (cases oc) (simp_all add: subprocess_run_def obs_monad printed_map_Print popen_commands_map_Print)
lemma result_subprocess_run:
  "result (subprocess_run oc c) =
     (case oc of SpawnFailed e \<Rightarrow> Inl (spawn_exn e)
      | Exited rc out \<Rightarrow> if rc \<noteq> 0 then Inl CalledProcessError else Inr out)"
  by (cases oc) (simp_all add: subprocess_run_def obs_monad printed_map_Print popen_commands_map_Print)

lemma result_unavailable: "result (unavailable_among w ps) = Inr (filter (\<lambda>p. connect_ex w p = 0) ps)"
  by (induction ps) (simp_all add: is_port_available_def obs_monad)
lemma commands_unavailable: "commands (unavailable_among w ps) = []"
  by (induction ps) (simp_all add: is_port_available_def obs_monad result_unavailable)
lemma messages_unavailable: "messages (unavailable_among w ps) = []"
  by (induction ps) (simp_all add: is_port_available_def obs_monad result_unavailable)

declare unavailable_among.simps [simp del]

lemmas obs_prim = commands_run_command result_run_command messages_run_command
  commands_subprocess_run messages_subprocess_run result_subprocess_run
  result_unavailable commands_unavailable messages_unavailable

lemma result_check_docker:
  "result (check_docker w) =
    (case docker_version w of
       SpawnFailed NotFound \<Rightarrow> Inr False
     | SpawnFailed OtherOS \<Rightarrow> Inl OSError
     | Exited rc out \<Rightarrow>
        if rc \<noteq> 0 then Inr False
        else (case docker_info_check w of
                SpawnFailed NotFound \<Rightarrow> Inr False
              | SpawnFailed OtherOS \<Rightarrow> Inl OSError
              | Exited rc out \<Rightarrow> Inr (rc = 0)))"
  by (simp add: check_docker_def obs_monad obs_prim split: proc_outcome.splits spawn_error.splits)

lemma commands_check_docker: "commands (check_docker w) = []"
  by (simp add: check_docker_def obs_monad obs_prim split: proc_outcome.splits spawn_error.splits)

lemma result_detect:
  "result (detect_windows_docker_environment w) =
     Inr (if platform_system w \<noteq> ''Windows'' then ''standard''
          else case docker_info_detect w of
                 SpawnFailed e \<Rightarrow> ''docker-desktop''
               | Exited rc out \<Rightarrow>
                   if rc = 0 \<and> \<not> (str_in ''wsl'' (lower out) \<or> str_in ''microsoft'' (lower out))
                      \<and> (str_in ''virtualbox'' (lower out) \<or> str_in ''docker machine'' (lower out))
                   then ''docker-toolbox'' else ''docker-desktop'')"
  by (simp add: detect_windows_docker_environment_def obs_monad obs_prim split: proc_outcome.splits)

lemma commands_detect: "commands (detect_windows_docker_environment w) = []"
  by (simp add: detect_windows_docker_environment_def obs_monad obs_prim split: proc_outcome.splits)

lemma messages_detect: "messages (detect_windows_docker_environment w) = []"
  by (simp add: detect_windows_docker_environment_def obs_monad obs_prim split: proc_outcome.splits)


lemmas obs_all = obs_monad obs_prim result_check_docker commands_check_docker result_detect commands_detect messages_detect exists_def Let_def

lemma messages_check_docker_ok:
  "result (check_docker w) = Inr True \<Longrightarrow> messages (check_docker w) = []"
  by (simp add: check_docker_def obs_monad obs_prim split: proc_outcome.splits spawn_error.splits if_splits)

lemma result_check_docker_ok: "result (check_docker w) = Inr True \<longleftrightarrow> engine_ok w"
  by (cases "docker_version w"; cases "docker_info_check w")
     (auto simp add: result_check_docker engine_ok_def split: spawn_error.splits)

lemma result_detected: "result (detect_windows_docker_environment w) = Inr (detected w)"
  by (simp add: detected_def result_detect)

lemma main_steps:
  "main w =
     bind (check_docker w) (\<lambda>docker_ok.
     if \<not> docker_ok then ret 1
     else
     bind (detect_windows_docker_environment w) (\<lambda>docker_env.
     seq (print (''Detected Docker environment: '' @ docker_env))
      (main_from_ports w docker_env)))"
  unfolding main_def main_from_ports_def main_from_env_file_def find_env_args_def main_from_build_mcp_def
    main_from_build_main_def main_from_replace_def replace_running_def main_from_run_def Let_def
  by (rule refl)

section \<open>Reading runs of \<open>main\<close>\<close>

text \<open>
  Step by step from the run step backwards: which commands the rest of \<open>main\<close> starts
  and what it returns.
\<close>

lemma commands_main_from_run:
  "commands (main_from_run w docker_env env_args) = [docker_run_command docker_env env_args]"
  by (simp add: main_from_run_def docker_run_command_def obs_monad obs_prim Let_def split: proc_outcome.splits)

lemma result_main_from_run:
  "result (main_from_run w docker_env env_args) =
     (case docker_run w of
        SpawnFailed e \<Rightarrow> Inl (spawn_exn e)
      | Exited rc ls \<Rightarrow> Inr (if rc \<noteq> 0 then 1 else 0))"
  by (simp add: main_from_run_def obs_monad obs_prim Let_def split: proc_outcome.splits)

lemma not_SubprocessError_spawn [simp]: "\<not> is_SubprocessError (spawn_exn e)"
  by (cases e) simp_all

lemma commands_replace_running: "commands (replace_running w) = replace_commands w"
  by (cases "docker_ps w"; cases "docker_stop w"; cases "docker_rm w")
     (simp_all add: replace_running_def replace_commands_def obs_monad obs_prim)

lemma result_replace_running:
  "result (replace_running w) = Inr () \<longleftrightarrow> replace_completes w"
  by (cases "docker_ps w"; cases "docker_stop w"; cases "docker_rm w")
     (auto simp add: replace_running_def replace_completes_def obs_monad obs_prim split: spawn_error.splits)

lemma result_replace_running_cases:
  "result (replace_running w) = (if replace_completes w then Inr () else Inl (case result (replace_running w) of Inl e \<Rightarrow> e | Inr u \<Rightarrow> OSError))"
  using result_replace_running [of w] by (cases "result (replace_running w)") auto

lemma commands_main_from_replace:
  "commands (main_from_replace w docker_env env_args) =
     replace_commands w @ (if replace_completes w then [docker_run_command docker_env env_args] else [])"
  using result_replace_running [of w]
  by (cases "result (replace_running w)")
     (auto simp add: main_from_replace_def obs_monad commands_replace_running commands_main_from_run)

lemma result_main_from_replace:
  "result (main_from_replace w docker_env env_args) =
     (case result (replace_running w) of
        Inl e \<Rightarrow> Inl e
      | Inr u \<Rightarrow> result (main_from_run w docker_env env_args))"
  by (simp add: main_from_replace_def obs_monad)

lemma commands_main_from_build_main:
  "commands (main_from_build_main w docker_env env_args) =
     [''docker'', ''build'', ''-t'', ''archon:latest'', ''.''] #
     (if exited_ok (build_main w) then commands (main_from_replace w docker_env env_args) else [])"
  by (cases "build_main w") (simp_all add: main_from_build_main_def obs_monad obs_prim)

lemma result_main_from_build_main:
  "result (main_from_build_main w docker_env env_args) =
     (case build_main w of
        SpawnFailed e \<Rightarrow> Inl (spawn_exn e)
      | Exited rc ls \<Rightarrow> if rc \<noteq> 0 then Inr 1 else result (main_from_replace w docker_env env_args))"
  by (cases "build_main w") (simp_all add: main_from_build_main_def obs_monad obs_prim)

lemma commands_main_from_build_mcp:
  "commands (main_from_build_mcp w docker_env env_args) =
     [''docker'', ''build'', ''-t'', ''archon-mcp:latest'', ''.''] #
     (if exited_ok (build_mcp w) then commands (main_from_build_main w docker_env env_args) else [])"
  by (cases "build_mcp w") (simp_all add: main_from_build_mcp_def obs_monad obs_prim)

lemma result_main_from_build_mcp:
  "result (main_from_build_mcp w docker_env env_args) =
     (case build_mcp w of
        SpawnFailed e \<Rightarrow> Inl (spawn_exn e)
      | Exited rc ls \<Rightarrow> if rc \<noteq> 0 then Inr 1 else result (main_from_build_main w docker_env env_args))"
  by (cases "build_mcp w") (simp_all add: main_from_build_mcp_def obs_monad obs_prim)

lemma obs_find_env_args:
  "commands (find_env_args w) = []"
  "result (find_env_args w) = Inr (env_file_args w)"
  "messages (find_env_args w) =
     [if exists w env_file then ''Using environment file: '' @ path_str w env_file
      else ''No .env file found. Continuing without environment variables.'']"
  by (simp_all add: find_env_args_def env_file_args_def env_file_def obs_monad)

lemma commands_main_from_env_file:
  "commands (main_from_env_file w docker_env) = commands (main_from_build_mcp w docker_env (env_file_args w))"
  by (simp add: main_from_env_file_def obs_monad obs_find_env_args)

lemma result_main_from_env_file:
  "result (main_from_env_file w docker_env) = result (main_from_build_mcp w docker_env (env_file_args w))"
  by (simp add: main_from_env_file_def obs_monad obs_find_env_args)

lemma unavailable_required:
  "filter (\<lambda>p. connect_ex w p = 0) [8501, 8100] = [] \<longleftrightarrow> ports_free w"
  by (simp add: ports_free_def occupied_def)

lemma commands_main_from_ports:
  "commands (main_from_ports w docker_env) =
     (if ports_free w then commands (main_from_env_file w docker_env) else [])"
  using unavailable_required [of w]
  by (simp add: main_from_ports_def obs_monad obs_prim del: filter.simps)

lemma result_main_from_ports:
  "result (main_from_ports w docker_env) =
     (if ports_free w then result (main_from_env_file w docker_env) else Inr 1)"
  using unavailable_required [of w]
  by (simp add: main_from_ports_def obs_monad obs_prim del: filter.simps)

lemma commands_main_engine:
  "commands (main w) = (if engine_ok w then commands (main_from_ports w (detected w)) else [])"
  using result_check_docker_ok [of w]
  by (cases "result (check_docker w)")
     (auto simp add: main_steps obs_monad commands_check_docker commands_detect result_detected)

lemma result_main_engine:
  "result (main w) =
     (case result (check_docker w) of
        Inl e \<Rightarrow> Inl e
      | Inr docker_ok \<Rightarrow> if docker_ok then result (main_from_ports w (detected w)) else Inr 1)"
  by (cases "result (check_docker w)")
     (auto simp add: main_steps obs_monad result_detected)

lemma commands_main:
  "commands (main w) =
     (if engine_ok w \<and> ports_free w then
        [''docker'', ''build'', ''-t'', ''archon-mcp:latest'', ''.''] #
        (if exited_ok (build_mcp w) then
           [''docker'', ''build'', ''-t'', ''archon:latest'', ''.''] #
           (if exited_ok (build_main w) then
              replace_commands w @
              (if replace_completes w then [docker_run_command (detected w) (env_file_args w)] else [])
            else [])
         else [])
      else [])"
  by (simp add: commands_main_engine commands_main_from_ports commands_main_from_env_file
      commands_main_from_build_mcp commands_main_from_build_main commands_main_from_replace)

section \<open>Strings and example worlds\<close>

text \<open>
  \<open>str_in\<close> finds the needle as a piece of the text; on the lower-cased text it finds a
  piece of the text that is the needle up to the case of its letters.
\<close>

lemma startswith_iff: "startswith s p \<longleftrightarrow> (\<exists>rest. s = p @ rest)"
  by (induction s p rule: startswith.induct) auto

lemma str_in_iff: "str_in needle hay \<longleftrightarrow> (\<exists>pre post. hay = pre @ needle @ post)"
proof (induction hay)
  case Nil
  then show ?case by auto
next
  case (Cons c cs)
  show ?case
  proof
    assume "str_in needle (c # cs)"
    then consider "startswith (c # cs) needle" | "str_in needle cs" by auto
    then show "\<exists>pre post. c # cs = pre @ needle @ post"
    proof cases
      case 1
      then obtain rest where "c # cs = needle @ rest" by (auto simp add: startswith_iff)
      then have "c # cs = [] @ needle @ rest" by simp
      then show ?thesis by blast
    next
      case 2
      then obtain pre post where "cs = pre @ needle @ post" using Cons.IH by blast
      then have "c # cs = (c # pre) @ needle @ post" by simp
      then show ?thesis by blast
    qed
  next
    assume "\<exists>pre post. c # cs = pre @ needle @ post"
    then obtain pre post where eq: "c # cs = pre @ needle @ post" by blast
    show "str_in needle (c # cs)"
    proof (cases pre)
      case Nil
      with eq have "startswith (c # cs) needle" by (auto simp add: startswith_iff)
      then show ?thesis by simp
    next
      case (Cons d ds)
      with eq have "cs = ds @ needle @ post" by simp
      then have "str_in needle cs" using Cons.IH by blast
      then show ?thesis by simp
    qed
  qed
qed

lemma str_in_lower_iff:
  "str_in needle (lower text) \<longleftrightarrow> (\<exists>pre mid post. text = pre @ mid @ post \<and> lower mid = needle)"
proof
  assume "str_in needle (lower text)"
  then obtain a b where eq: "map lower_char text = a @ needle @ b"
    by (auto simp add: str_in_iff lower_def)
  let ?pre = "take (length a) text"
  let ?mid = "take (length needle) (drop (length a) text)"
  let ?post = "drop (length needle) (drop (length a) text)"
  have "text = ?pre @ ?mid @ ?post" by (simp only: append_take_drop_id)
  moreover have "map lower_char ?mid = needle"
    using eq by (simp add: take_map [symmetric] drop_map [symmetric])
  ultimately show "\<exists>pre mid post. text = pre @ mid @ post \<and> lower mid = needle"
    unfolding lower_def by blast
next
  assume "\<exists>pre mid post. text = pre @ mid @ post \<and> lower mid = needle"
  then obtain pre mid post where "text = pre @ mid @ post" "lower mid = needle" by blast
  then have "lower text = lower pre @ needle @ lower post" by (auto simp add: lower_def)
  then show "str_in needle (lower text)"
    unfolding str_in_iff by blast
qed

lemmas world_defs = world_ok_def world_running_def world_run_fails_def world_no_engine_def
  world_daemon_down_def world_port_busy_def world_env_file_def world_env_dir_def world_wsl_def
  world_toolbox_def world_windows_plain_def world_windows_query_fails_def world_no_mcp_dir_def
  world_ps_unstartable_def world_stop_unstartable_def world_rm_missing_def

lemmas string_eval = lower_def lower_char_def strip_def isspace_def

section \<open>The claims\<close>

text \<open>
  C3. If the engine binary is absent (starting \<open>docker --version\<close> raises
  \<open>FileNotFoundError\<close>), or the binary answers and the daemon is unreachable (\<open>docker info\<close>
  exits with a non-zero code), then \<open>main\<close> returns the exit code 1 and starts no build,
  stop, remove or run command.
\<close>

theorem engine_unavailable_aborts:
  assumes "docker_version w = SpawnFailed NotFound \<or>
           (exited_ok (docker_version w) \<and> exited_nonzero (docker_info_check w))"
  shows "result (main w) = Inr 1 \<and> commands (main w) = []"
proof -
  have "result (check_docker w) = Inr False"
    using assms
    by (cases "docker_version w"; cases "docker_info_check w") (auto simp add: result_check_docker)
  moreover have "\<not> engine_ok w"
    using assms
    by (cases "docker_version w"; cases "docker_info_check w") (auto simp add: engine_ok_def)
  ultimately show ?thesis
    by (simp add: result_main_engine commands_main_engine)
qed

theorem engine_unavailable_aborts_witness:
  "docker_version world_no_engine = SpawnFailed NotFound \<and>
   result (main world_no_engine) = Inr 1 \<and> commands (main world_no_engine) = [] \<and>
   exited_ok (docker_version world_daemon_down) \<and> exited_nonzero (docker_info_check world_daemon_down) \<and>
   result (main world_daemon_down) = Inr 1 \<and> commands (main world_daemon_down) = []"
proof -
  have a: "docker_version world_no_engine = SpawnFailed NotFound"
    by (simp add: world_defs)
  have b: "exited_ok (docker_version world_daemon_down) \<and> exited_nonzero (docker_info_check world_daemon_down)"
    by (simp add: world_defs)
  show ?thesis
    using a b engine_unavailable_aborts [of world_no_engine] engine_unavailable_aborts [of world_daemon_down]
    by simp
qed

text \<open>
  C4. Environment detection returns \<open>standard\<close> on every platform other than Windows. On
  Windows it returns \<open>docker-desktop\<close> when the daemon-info text contains \<open>wsl\<close> or
  \<open>microsoft\<close> in any case of the letters, \<open>docker-toolbox\<close> when it contains neither of
  them and contains \<open>virtualbox\<close> or \<open>docker machine\<close>, and \<open>docker-desktop\<close> when it
  contains none of the four or when the query fails (it cannot be started, or exits with
  a non-zero code).
\<close>

theorem detect_environment:
  "(platform_system w \<noteq> ''Windows'' \<longrightarrow>
      result (detect_windows_docker_environment w) = Inr ''standard'') \<and>
   (\<forall>out. platform_system w = ''Windows'' \<and> docker_info_detect w = Exited 0 out \<and>
      (str_in ''wsl'' (lower out) \<or> str_in ''microsoft'' (lower out)) \<longrightarrow>
      result (detect_windows_docker_environment w) = Inr ''docker-desktop'') \<and>
   (\<forall>out. platform_system w = ''Windows'' \<and> docker_info_detect w = Exited 0 out \<and>
      \<not> (str_in ''wsl'' (lower out) \<or> str_in ''microsoft'' (lower out)) \<and>
      (str_in ''virtualbox'' (lower out) \<or> str_in ''docker machine'' (lower out)) \<longrightarrow>
      result (detect_windows_docker_environment w) = Inr ''docker-toolbox'') \<and>
   (\<forall>out. platform_system w = ''Windows'' \<and> docker_info_detect w = Exited 0 out \<and>
      \<not> (str_in ''wsl'' (lower out) \<or> str_in ''microsoft'' (lower out)) \<and>
      \<not> (str_in ''virtualbox'' (lower out) \<or> str_in ''docker machine'' (lower out)) \<longrightarrow>
      result (detect_windows_docker_environment w) = Inr ''docker-desktop'') \<and>
   (platform_system w = ''Windows'' \<and> \<not> exited_ok (docker_info_detect w) \<longrightarrow>
      result (detect_windows_docker_environment w) = Inr ''docker-desktop'')"
  by (cases "docker_info_detect w") (auto simp add: result_detect)

theorem detect_environment_witness:
  "result (detect_windows_docker_environment world_ok) = Inr ''standard'' \<and>
   result (detect_windows_docker_environment world_wsl) = Inr ''docker-desktop'' \<and>
   result (detect_windows_docker_environment world_toolbox) = Inr ''docker-toolbox'' \<and>
   result (detect_windows_docker_environment world_windows_plain) = Inr ''docker-desktop'' \<and>
   result (detect_windows_docker_environment world_windows_query_fails) = Inr ''docker-desktop''"
proof -
  have linux: "platform_system world_ok \<noteq> ''Windows''"
    by (simp add: world_ok_def)
  have wsl: "platform_system world_wsl = ''Windows'' \<and> docker_info_detect world_wsl = Exited 0 ''Kernel: WSL2''"
    by (simp add: world_wsl_def)
  have wsl_text: "str_in ''wsl'' (lower ''Kernel: WSL2'')"
    by (simp add: string_eval)
  have toolbox: "platform_system world_toolbox = ''Windows'' \<and> docker_info_detect world_toolbox = Exited 0 ''OS: VirtualBox''"
    by (simp add: world_toolbox_def)
  have toolbox_text:
    "\<not> (str_in ''wsl'' (lower ''OS: VirtualBox'') \<or> str_in ''microsoft'' (lower ''OS: VirtualBox''))"
    "str_in ''virtualbox'' (lower ''OS: VirtualBox'')"
    by (simp_all add: string_eval)
  have plain: "platform_system world_windows_plain = ''Windows'' \<and> docker_info_detect world_windows_plain = Exited 0 ''Server: Engine''"
    by (simp add: world_windows_plain_def)
  have plain_text:
    "\<not> (str_in ''wsl'' (lower ''Server: Engine'') \<or> str_in ''microsoft'' (lower ''Server: Engine''))"
    "\<not> (str_in ''virtualbox'' (lower ''Server: Engine'') \<or> str_in ''docker machine'' (lower ''Server: Engine''))"
    by (simp_all add: string_eval)
  have fails: "platform_system world_windows_query_fails = ''Windows'' \<and> \<not> exited_ok (docker_info_detect world_windows_query_fails)"
    by (simp add: world_windows_query_fails_def)
  have "result (detect_windows_docker_environment world_ok) = Inr ''standard''"
    using detect_environment [of world_ok] linux by blast
  moreover have "result (detect_windows_docker_environment world_wsl) = Inr ''docker-desktop''"
    using detect_environment [of world_wsl] wsl wsl_text by blast
  moreover have "result (detect_windows_docker_environment world_toolbox) = Inr ''docker-toolbox''"
    using detect_environment [of world_toolbox] toolbox toolbox_text by blast
  moreover have "result (detect_windows_docker_environment world_windows_plain) = Inr ''docker-desktop''"
    using detect_environment [of world_windows_plain] plain plain_text by blast
  moreover have "result (detect_windows_docker_environment world_windows_query_fails) = Inr ''docker-desktop''"
    using detect_environment [of world_windows_query_fails] fails by blast
  ultimately show ?thesis by blast
qed

lemma run_commands_main:
  "filter is_run (commands (main w)) =
     (if reaches_run w then [docker_run_command (detected w) (env_file_args w)] else [])"
  by (simp add: commands_main reaches_run_def builds_ok_def replace_commands_def is_run_def
      docker_run_command_def)

lemma alias_in_run_command:
  "has_host_gateway_alias (docker_run_command docker_env (env_file_args w)) \<longleftrightarrow>
     docker_env = ''docker-desktop''"
  by (simp add: has_host_gateway_alias_def docker_run_command_def env_file_args_def)

lemma env_file_in_run_command:
  "has_args [''--env-file'', path_str w env_file] (docker_run_command docker_env (env_file_args w)) \<longleftrightarrow>
     exists w env_file"
  by (simp add: docker_run_command_def env_file_args_def)

lemma no_env_file_in_run_command:
  "\<not> exists w env_file \<Longrightarrow> ''--env-file'' \<notin> set (docker_run_command docker_env (env_file_args w))"
  by (simp add: docker_run_command_def env_file_args_def)

lemma other_commands_no_alias:
  "\<not> has_host_gateway_alias [''docker'', ''build'', ''-t'', ''archon-mcp:latest'', ''.'']"
  "\<not> has_host_gateway_alias [''docker'', ''build'', ''-t'', ''archon:latest'', ''.'']"
  "\<not> has_host_gateway_alias [''docker'', ''stop'', ''archon-container'']"
  "\<not> has_host_gateway_alias [''docker'', ''rm'', ''archon-container'']"
  by (simp_all add: has_host_gateway_alias_def)

lemma no_alias_unless_desktop:
  assumes "detected w \<noteq> ''docker-desktop''"
  shows "\<forall>cmd \<in> set (commands (main w)). \<not> has_host_gateway_alias cmd"
  using assms
  by (auto simp add: commands_main replace_commands_def other_commands_no_alias alias_in_run_command
      split: if_splits)


lemma detected_eval:
  "detected w =
     (if platform_system w \<noteq> ''Windows'' then ''standard''
      else case docker_info_detect w of
             SpawnFailed e \<Rightarrow> ''docker-desktop''
           | Exited rc out \<Rightarrow>
               if rc = 0 \<and> \<not> (str_in ''wsl'' (lower out) \<or> str_in ''microsoft'' (lower out))
                  \<and> (str_in ''virtualbox'' (lower out) \<or> str_in ''docker machine'' (lower out))
               then ''docker-toolbox'' else ''docker-desktop'')"
  by (simp add: detected_def result_detect)

lemmas world_preds = engine_ok_def ports_free_def occupied_def builds_ok_def replace_completes_def
  reaches_run_def exists_def env_file_def env_file_args_def detected_eval

text \<open>
  C5. Whenever \<open>main\<close> starts the run command, the command carries the host-gateway alias
  flag if and only if the detected environment is \<open>docker-desktop\<close>. On Windows with a
  daemon-info text that contains \<open>wsl\<close> the environment is \<open>docker-desktop\<close> and the run
  command carries the flag; on any other platform no command that \<open>main\<close> starts carries it.
\<close>

theorem alias_flag_iff_docker_desktop:
  "(\<forall>cmd \<in> set (filter is_run (commands (main w))).
      has_host_gateway_alias cmd \<longleftrightarrow>
      result (detect_windows_docker_environment w) = Inr ''docker-desktop'') \<and>
   (\<forall>out. platform_system w = ''Windows'' \<and> docker_info_detect w = Exited 0 out \<and>
      str_in ''wsl'' (lower out) \<longrightarrow>
      result (detect_windows_docker_environment w) = Inr ''docker-desktop'' \<and>
      (\<forall>cmd \<in> set (filter is_run (commands (main w))). has_host_gateway_alias cmd)) \<and>
   (platform_system w \<noteq> ''Windows'' \<longrightarrow>
      (\<forall>cmd \<in> set (commands (main w)). \<not> has_host_gateway_alias cmd))"
proof (intro conjI allI impI)
  show iff: "\<forall>cmd \<in> set (filter is_run (commands (main w))).
      has_host_gateway_alias cmd \<longleftrightarrow>
      result (detect_windows_docker_environment w) = Inr ''docker-desktop''"
    by (simp add: run_commands_main alias_in_run_command result_detected)
  fix out
  assume win: "platform_system w = ''Windows'' \<and> docker_info_detect w = Exited 0 out \<and>
      str_in ''wsl'' (lower out)"
  then show desktop: "result (detect_windows_docker_environment w) = Inr ''docker-desktop''"
    by (simp add: result_detect)
  with iff show "\<forall>cmd \<in> set (filter is_run (commands (main w))). has_host_gateway_alias cmd"
    by simp
next
  assume "platform_system w \<noteq> ''Windows''"
  then have "detected w \<noteq> ''docker-desktop''"
    by (simp add: detected_eval)
  then show "\<forall>cmd \<in> set (commands (main w)). \<not> has_host_gateway_alias cmd"
    by (rule no_alias_unless_desktop)
qed

theorem alias_flag_iff_docker_desktop_witness:
  "filter is_run (commands (main world_wsl)) =
     [[''docker'', ''run'', ''-d'', ''--name'', ''archon-container'', ''-p'', ''8501:8501'',
       ''-p'', ''8100:8100'', ''--add-host'', ''host.docker.internal:host-gateway'',
       ''archon:latest'']] \<and>
   result (detect_windows_docker_environment world_wsl) = Inr ''docker-desktop'' \<and>
   has_host_gateway_alias (hd (filter is_run (commands (main world_wsl)))) \<and>
   filter is_run (commands (main world_ok)) =
     [[''docker'', ''run'', ''-d'', ''--name'', ''archon-container'', ''-p'', ''8501:8501'',
       ''-p'', ''8100:8100'', ''archon:latest'']] \<and>
   \<not> has_host_gateway_alias (hd (filter is_run (commands (main world_ok))))"
proof -
  have wsl_text: "str_in ''wsl'' (lower ''Kernel: WSL2'')"
    by (simp add: string_eval)
  have wsl: "platform_system world_wsl = ''Windows'' \<and>
      docker_info_detect world_wsl = Exited 0 ''Kernel: WSL2'' \<and> str_in ''wsl'' (lower ''Kernel: WSL2'')"
    using wsl_text by (simp add: world_wsl_def)
  have wsl_env: "detected world_wsl = ''docker-desktop''"
    using wsl_text by (simp add: detected_eval world_wsl_def)
  have wsl_run: "filter is_run (commands (main world_wsl)) =
     [[''docker'', ''run'', ''-d'', ''--name'', ''archon-container'', ''-p'', ''8501:8501'',
       ''-p'', ''8100:8100'', ''--add-host'', ''host.docker.internal:host-gateway'',
       ''archon:latest'']]"
    by (simp add: run_commands_main wsl_env docker_run_command_def)
       (simp add: world_wsl_def world_ok_def reaches_run_def engine_ok_def ports_free_def occupied_def
          builds_ok_def replace_completes_def env_file_args_def exists_def env_file_def strip_def)
  have ok: "platform_system world_ok \<noteq> ''Windows''"
    by (simp add: world_ok_def)
  have ok_run: "filter is_run (commands (main world_ok)) =
     [[''docker'', ''run'', ''-d'', ''--name'', ''archon-container'', ''-p'', ''8501:8501'',
       ''-p'', ''8100:8100'', ''archon:latest'']]"
    by (simp add: run_commands_main docker_run_command_def detected_eval ok)
       (simp add: world_ok_def reaches_run_def engine_ok_def ports_free_def occupied_def
          builds_ok_def replace_completes_def env_file_args_def exists_def env_file_def strip_def)
  have in_ok: "hd (filter is_run (commands (main world_ok))) \<in> set (commands (main world_ok))"
  proof -
    have "hd (filter is_run (commands (main world_ok))) \<in> set (filter is_run (commands (main world_ok)))"
      using ok_run by simp
    then show ?thesis by simp
  qed
  from alias_flag_iff_docker_desktop [of world_wsl] wsl wsl_run
  have "result (detect_windows_docker_environment world_wsl) = Inr ''docker-desktop'' \<and>
        has_host_gateway_alias (hd (filter is_run (commands (main world_wsl))))"
    by (metis list.sel(1) list.set_intros(1))
  moreover from alias_flag_iff_docker_desktop [of world_ok] ok in_ok
  have "\<not> has_host_gateway_alias (hd (filter is_run (commands (main world_ok))))"
    by blast
  ultimately show ?thesis
    using wsl_run ok_run by simp
qed

text \<open>
  C6. Whenever \<open>main\<close> starts the run command, the command carries the argument pair
  \<open>--env-file\<close>, path of the \<open>.env\<close> beside the script, if and only if something exists
  at that path. When nothing exists there, the run command has no \<open>--env-file\<close> argument
  at all, and the run is started all the same once the earlier steps have passed.
\<close>

theorem env_file_argument_iff_exists:
  "(\<forall>cmd \<in> set (filter is_run (commands (main w))).
      has_args [''--env-file'', path_str w (Child ScriptDir ''.env'')] cmd \<longleftrightarrow>
      exists w (Child ScriptDir ''.env'')) \<and>
   (\<not> exists w (Child ScriptDir ''.env'') \<longrightarrow>
      (\<forall>cmd \<in> set (filter is_run (commands (main w))). ''--env-file'' \<notin> set cmd)) \<and>
   (\<not> exists w (Child ScriptDir ''.env'') \<and> reaches_run w \<longrightarrow>
      filter is_run (commands (main w)) = [docker_run_command (detected w) []])"
  using env_file_in_run_command [of w "detected w"] no_env_file_in_run_command [of w "detected w"]
  by (auto simp add: run_commands_main env_file_def env_file_args_def)

theorem env_file_argument_iff_exists_witness:
  "exists world_env_file (Child ScriptDir ''.env'') \<and>
   filter is_run (commands (main world_env_file)) =
     [[''docker'', ''run'', ''-d'', ''--name'', ''archon-container'', ''-p'', ''8501:8501'',
       ''-p'', ''8100:8100'', ''--env-file'', ''/opt/archon/.env'', ''archon:latest'']] \<and>
   has_args [''--env-file'', path_str world_env_file (Child ScriptDir ''.env'')]
     (hd (filter is_run (commands (main world_env_file)))) \<and>
   \<not> exists world_ok (Child ScriptDir ''.env'') \<and> reaches_run world_ok \<and>
   filter is_run (commands (main world_ok)) = [docker_run_command (detected world_ok) []] \<and>
   ''--env-file'' \<notin> set (hd (filter is_run (commands (main world_ok))))"
proof -
  have there: "exists world_env_file (Child ScriptDir ''.env'')"
    by (simp add: world_env_file_def exists_def)
  have there_run: "filter is_run (commands (main world_env_file)) =
     [[''docker'', ''run'', ''-d'', ''--name'', ''archon-container'', ''-p'', ''8501:8501'',
       ''-p'', ''8100:8100'', ''--env-file'', ''/opt/archon/.env'', ''archon:latest'']]"
    by (simp add: run_commands_main docker_run_command_def detected_eval)
       (simp add: world_env_file_def world_ok_def reaches_run_def engine_ok_def ports_free_def
          occupied_def builds_ok_def replace_completes_def env_file_args_def exists_def env_file_def
          strip_def)
  have absent: "\<not> exists world_ok (Child ScriptDir ''.env'')"
    by (simp add: world_ok_def exists_def)
  have reaches: "reaches_run world_ok"
    by (simp add: world_ok_def reaches_run_def engine_ok_def ports_free_def occupied_def
          builds_ok_def replace_completes_def strip_def)
  from env_file_argument_iff_exists [of world_env_file] there there_run
  have "has_args [''--env-file'', path_str world_env_file (Child ScriptDir ''.env'')]
     (hd (filter is_run (commands (main world_env_file))))"
    by (metis list.sel(1) list.set_intros(1))
  moreover from env_file_argument_iff_exists [of world_ok] absent reaches
  have run: "filter is_run (commands (main world_ok)) = [docker_run_command (detected world_ok) []]"
    by blast
  moreover from env_file_argument_iff_exists [of world_ok] absent run
  have "''--env-file'' \<notin> set (hd (filter is_run (commands (main world_ok))))"
    by (metis list.sel(1) list.set_intros(1))
  ultimately show ?thesis
    using there there_run absent reaches by blast
qed

text \<open>
  C10. The discovery of the environment file asks only whether something exists at the
  path: whatever kind of entry \<open>.env\<close> is (a regular file, a directory, anything else),
  the run command that \<open>main\<close> starts carries the argument pair \<open>--env-file\<close>, path of
  that entry.
\<close>

theorem env_file_of_any_kind:
  assumes "fs_stat w (Child ScriptDir ''.env'') = Some kind"
  shows "(\<forall>cmd \<in> set (filter is_run (commands (main w))).
            has_args [''--env-file'', path_str w (Child ScriptDir ''.env'')] cmd) \<and>
         (reaches_run w \<longrightarrow>
            filter is_run (commands (main w)) =
              [docker_run_command (detected w) [''--env-file'', path_str w (Child ScriptDir ''.env'')]])"
proof -
  have "exists w env_file"
    using assms by (simp add: exists_def env_file_def)
  then show ?thesis
    using env_file_in_run_command [of w "detected w"]
    by (auto simp add: run_commands_main env_file_def env_file_args_def)
qed

theorem env_file_of_any_kind_witness:
  "fs_stat world_env_dir (Child ScriptDir ''.env'') = Some Directory \<and> reaches_run world_env_dir \<and>
   filter is_run (commands (main world_env_dir)) =
     [[''docker'', ''run'', ''-d'', ''--name'', ''archon-container'', ''-p'', ''8501:8501'',
       ''-p'', ''8100:8100'', ''--env-file'', ''/opt/archon/.env'', ''archon:latest'']] \<and>
   has_args [''--env-file'', ''/opt/archon/.env''] (hd (filter is_run (commands (main world_env_dir))))"
proof -
  have dir: "fs_stat world_env_dir (Child ScriptDir ''.env'') = Some Directory"
    by (simp add: world_env_dir_def)
  have reaches: "reaches_run world_env_dir"
    by (simp add: world_env_dir_def world_ok_def reaches_run_def engine_ok_def ports_free_def
          occupied_def builds_ok_def replace_completes_def strip_def)
  have env: "detected world_env_dir = ''standard''"
    by (simp add: detected_eval world_env_dir_def world_ok_def)
  have str: "path_str world_env_dir (Child ScriptDir ''.env'') = ''/opt/archon/.env''"
    by (simp add: world_env_dir_def world_ok_def)
  from env_file_of_any_kind [OF dir] reaches
  have run: "filter is_run (commands (main world_env_dir)) =
      [docker_run_command (detected world_env_dir) [''--env-file'', path_str world_env_dir (Child ScriptDir ''.env'')]]"
    by blast
  from env_file_of_any_kind [OF dir] run
  have "has_args [''--env-file'', path_str world_env_dir (Child ScriptDir ''.env'')]
          (hd (filter is_run (commands (main world_env_dir))))"
    by (metis list.sel(1) list.set_intros(1))
  then show ?thesis
    using dir reaches run by (simp add: env str docker_run_command_def)
qed

lemma exited_ok_cases: "exited_ok oc \<Longrightarrow> \<exists>out. oc = Exited 0 out"
  by (cases oc) simp_all

lemma result_main_reaches:
  assumes "reaches_run w"
  shows "result (main w) =
     (case docker_run w of
        SpawnFailed e \<Rightarrow> Inl (spawn_exn e)
      | Exited rc ls \<Rightarrow> Inr (if rc \<noteq> 0 then 1 else 0))"
proof -
  from assms have e: "result (check_docker w) = Inr True"
    by (simp add: reaches_run_def result_check_docker_ok)
  from assms obtain l1 l2 where b: "build_mcp w = Exited 0 l1" "build_main w = Exited 0 l2"
    using exited_ok_cases by (fastforce simp add: reaches_run_def builds_ok_def)
  from assms have r: "result (replace_running w) = Inr ()"
    by (simp add: reaches_run_def result_replace_running)
  from assms have p: "ports_free w"
    by (simp add: reaches_run_def)
  show ?thesis
    by (simp add: result_main_engine e result_main_from_ports p result_main_from_env_file
        result_main_from_build_mcp result_main_from_build_main b result_main_from_replace r
        result_main_from_run)
qed

lemma commands_main_reaches:
  assumes "reaches_run w"
  shows "commands (main w) =
     [''docker'', ''build'', ''-t'', ''archon-mcp:latest'', ''.''] #
     [''docker'', ''build'', ''-t'', ''archon:latest'', ''.''] #
     replace_commands w @ [docker_run_command (detected w) (env_file_args w)]"
  using assms by (simp add: commands_main reaches_run_def builds_ok_def)

lemma kinds_of_commands:
  "is_build [''docker'', ''build'', ''-t'', ''archon-mcp:latest'', ''.'']"
  "is_build [''docker'', ''build'', ''-t'', ''archon:latest'', ''.'']"
  "\<not> is_build [''docker'', ''stop'', ''archon-container'']"
  "\<not> is_build [''docker'', ''rm'', ''archon-container'']"
  "\<not> is_build (docker_run_command docker_env env_args)"
  "\<not> is_stop_or_rm [''docker'', ''build'', ''-t'', ''archon-mcp:latest'', ''.'']"
  "\<not> is_stop_or_rm [''docker'', ''build'', ''-t'', ''archon:latest'', ''.'']"
  "is_stop_or_rm [''docker'', ''stop'', ''archon-container'']"
  "is_stop_or_rm [''docker'', ''rm'', ''archon-container'']"
  "\<not> is_stop_or_rm (docker_run_command docker_env env_args)"
  "is_run (docker_run_command docker_env env_args)"
  "\<not> is_run [''docker'', ''build'', ''-t'', ''archon-mcp:latest'', ''.'']"
  "\<not> is_run [''docker'', ''build'', ''-t'', ''archon:latest'', ''.'']"
  "\<not> is_run [''docker'', ''stop'', ''archon-container'']"
  "\<not> is_run [''docker'', ''rm'', ''archon-container'']"
  by (simp_all add: is_build_def is_stop_or_rm_def is_run_def docker_run_command_def)

text \<open>
  C1, as the code has it. If the engine is present and the daemon reachable, both
  required ports are free, no \<open>.env\<close> exists beside the script, both builds exit with 0,
  the container-list query can be started and reports no running container, and the run
  command exits with 0, then \<open>main\<close> starts exactly the two builds and the run command,
  in this order, no stop or remove command, the run command has no \<open>--env-file\<close>
  argument, and \<open>main\<close> returns 0.
\<close>

theorem fresh_run_end_to_end:
  assumes "engine_ok w" and "ports_free w" and "\<not> exists w (Child ScriptDir ''.env'')"
    and "builds_ok w"
    and "reports_none (docker_ps w) \<or> exited_nonzero (docker_ps w)"
    and "exited_ok (docker_run w)"
  shows "commands (main w) =
           [[''docker'', ''build'', ''-t'', ''archon-mcp:latest'', ''.''],
            [''docker'', ''build'', ''-t'', ''archon:latest'', ''.''],
            docker_run_command (detected w) []] \<and>
         length (filter is_build (commands (main w))) = 2 \<and>
         filter is_stop_or_rm (commands (main w)) = [] \<and>
         filter is_run (commands (main w)) = [docker_run_command (detected w) []] \<and>
         ''--env-file'' \<notin> set (docker_run_command (detected w) []) \<and>
         result (main w) = Inr 0"
proof -
  from assms have reaches: "reaches_run w"
    by (auto simp add: reaches_run_def replace_completes_def)
  from assms(5) have none: "replace_commands w = []"
    by (cases "docker_ps w") (auto simp add: replace_commands_def)
  from assms(3) have args: "env_file_args w = []"
    by (simp add: env_file_args_def env_file_def)
  have cmds: "commands (main w) =
           [[''docker'', ''build'', ''-t'', ''archon-mcp:latest'', ''.''],
            [''docker'', ''build'', ''-t'', ''archon:latest'', ''.''],
            docker_run_command (detected w) []]"
    by (simp add: commands_main_reaches [OF reaches] none args)
  from assms(6) obtain ls where "docker_run w = Exited 0 ls"
    using exited_ok_cases by blast
  then have res: "result (main w) = Inr 0"
    by (simp add: result_main_reaches [OF reaches])
  have "''--env-file'' \<notin> set (docker_run_command (detected w) [])"
    by (simp add: docker_run_command_def)
  then show ?thesis
    by (simp add: cmds res kinds_of_commands)
qed

lemma world_ok_facts:
  "engine_ok world_ok" "ports_free world_ok" "\<not> exists world_ok (Child ScriptDir ''.env'')"
  "builds_ok world_ok" "reports_none (docker_ps world_ok)" "exited_ok (docker_run world_ok)"
  "detected world_ok = ''standard''"
  by (simp_all add: world_ok_def engine_ok_def ports_free_def occupied_def exists_def builds_ok_def
      strip_def detected_eval)

theorem fresh_run_end_to_end_witness:
  "engine_ok world_ok \<and> ports_free world_ok \<and> \<not> exists world_ok (Child ScriptDir ''.env'') \<and>
   builds_ok world_ok \<and> reports_none (docker_ps world_ok) \<and> exited_ok (docker_run world_ok) \<and>
   commands (main world_ok) =
     [[''docker'', ''build'', ''-t'', ''archon-mcp:latest'', ''.''],
      [''docker'', ''build'', ''-t'', ''archon:latest'', ''.''],
      [''docker'', ''run'', ''-d'', ''--name'', ''archon-container'', ''-p'', ''8501:8501'',
       ''-p'', ''8100:8100'', ''archon:latest'']] \<and>
   result (main world_ok) = Inr 0"
  using fresh_run_end_to_end [of world_ok] world_ok_facts
  by (simp add: docker_run_command_def)

text \<open>
  C1, as the spec states it, fails: with the engine present, the ports free, no \<open>.env\<close>
  and both builds exiting with 0, a container of the name that is already running makes
  \<open>main\<close> start a stop and a remove command, and a run command that exits with a
  non-zero code makes \<open>main\<close> return 1.
\<close>

theorem fresh_run_counterexample:
  "engine_ok world_running \<and> ports_free world_running \<and>
   \<not> exists world_running (Child ScriptDir ''.env'') \<and> builds_ok world_running \<and>
   filter is_stop_or_rm (commands (main world_running)) =
     [[''docker'', ''stop'', ''archon-container''], [''docker'', ''rm'', ''archon-container'']] \<and>
   engine_ok world_run_fails \<and> ports_free world_run_fails \<and>
   \<not> exists world_run_fails (Child ScriptDir ''.env'') \<and> builds_ok world_run_fails \<and>
   result (main world_run_fails) = Inr 1"
proof -
  have a: "engine_ok world_running \<and> ports_free world_running \<and>
      \<not> exists world_running (Child ScriptDir ''.env'') \<and> builds_ok world_running \<and>
      reaches_run world_running \<and>
      replace_commands world_running =
        [[''docker'', ''stop'', ''archon-container''], [''docker'', ''rm'', ''archon-container'']]"
    by (simp add: world_running_def world_ok_def engine_ok_def ports_free_def occupied_def exists_def
        builds_ok_def reaches_run_def replace_completes_def replace_commands_def strip_def isspace_def)
  have b: "engine_ok world_run_fails \<and> ports_free world_run_fails \<and>
      \<not> exists world_run_fails (Child ScriptDir ''.env'') \<and> builds_ok world_run_fails \<and>
      reaches_run world_run_fails \<and>
      docker_run world_run_fails = Exited 125 [''docker: Error response from daemon'']"
    by (simp add: world_run_fails_def world_ok_def engine_ok_def ports_free_def occupied_def exists_def
        builds_ok_def reaches_run_def replace_completes_def strip_def)
  from a have "filter is_stop_or_rm (commands (main world_running)) =
     [[''docker'', ''stop'', ''archon-container''], [''docker'', ''rm'', ''archon-container'']]"
    by (simp add: commands_main_reaches kinds_of_commands)
  moreover from b have "result (main world_run_fails) = Inr 1"
    by (simp add: result_main_reaches)
  ultimately show ?thesis
    using a b by blast
qed

lemma result_replace_running_unstartable:
  assumes "docker_ps w = SpawnFailed e \<or>
           (reports_container (docker_ps w) \<and>
             (docker_stop w = SpawnFailed e \<or> (started (docker_stop w) \<and> docker_rm w = SpawnFailed e)))"
  shows "result (replace_running w) = Inl (spawn_exn e)"
  using assms
  by (cases "docker_ps w"; cases "docker_stop w"; cases "docker_rm w")
     (auto simp add: replace_running_def obs_monad obs_prim)

lemma result_main_from_builds:
  assumes "engine_ok w" and "ports_free w" and "builds_ok w"
  shows "result (main w) = result (main_from_replace w (detected w) (env_file_args w))"
proof -
  from assms(1) have e: "result (check_docker w) = Inr True"
    by (simp add: result_check_docker_ok)
  from assms(3) obtain l1 l2 where b: "build_mcp w = Exited 0 l1" "build_main w = Exited 0 l2"
    using exited_ok_cases by (fastforce simp add: builds_ok_def)
  show ?thesis
    by (simp add: result_main_engine e result_main_from_ports assms(2) result_main_from_env_file
        result_main_from_build_mcp result_main_from_build_main b)
qed

text \<open>
  C7, as the code has it. Let the engine check pass, the ports be free and both builds
  exit with 0, so that the container-list query is made. If the query reports a running
  container and the stop and the remove command can be started, \<open>main\<close> starts the stop,
  then the remove, then the run command. If the query reports none, \<open>main\<close> starts no
  stop or remove command and goes on to the run command. If the query exits with a
  non-zero code, the \<open>SubprocessError\<close> is swallowed and \<open>main\<close> goes on to the run
  command. If the query cannot be started, or it reports a container and the stop or the
  remove command cannot be started, the exception of that failure (\<open>FileNotFoundError\<close>
  or another \<open>OSError\<close>) leaves \<open>main\<close> and no run command is started.
\<close>

theorem replace_running_container:
  assumes "engine_ok w" and "ports_free w" and "builds_ok w"
  shows "(reports_container (docker_ps w) \<and> started (docker_stop w) \<and> started (docker_rm w) \<longrightarrow>
            commands (main w) =
              [[''docker'', ''build'', ''-t'', ''archon-mcp:latest'', ''.''],
               [''docker'', ''build'', ''-t'', ''archon:latest'', ''.''],
               [''docker'', ''stop'', ''archon-container''],
               [''docker'', ''rm'', ''archon-container''],
               docker_run_command (detected w) (env_file_args w)]) \<and>
         (reports_none (docker_ps w) \<or> exited_nonzero (docker_ps w) \<longrightarrow>
            commands (main w) =
              [[''docker'', ''build'', ''-t'', ''archon-mcp:latest'', ''.''],
               [''docker'', ''build'', ''-t'', ''archon:latest'', ''.''],
               docker_run_command (detected w) (env_file_args w)] \<and>
            (\<forall>e. result (main w) = Inl e \<longrightarrow> \<not> started (docker_run w))) \<and>
         (\<forall>e. docker_ps w = SpawnFailed e \<or>
               (reports_container (docker_ps w) \<and>
                 (docker_stop w = SpawnFailed e \<or>
                  (started (docker_stop w) \<and> docker_rm w = SpawnFailed e))) \<longrightarrow>
            result (main w) = Inl (spawn_exn e) \<and>
            filter is_run (commands (main w)) = [])"
proof -
  have part1: "commands (main w) =
              [[''docker'', ''build'', ''-t'', ''archon-mcp:latest'', ''.''],
               [''docker'', ''build'', ''-t'', ''archon:latest'', ''.''],
               [''docker'', ''stop'', ''archon-container''],
               [''docker'', ''rm'', ''archon-container''],
               docker_run_command (detected w) (env_file_args w)]"
    if a: "reports_container (docker_ps w) \<and> started (docker_stop w) \<and> started (docker_rm w)"
  proof -
    from a assms have reaches: "reaches_run w"
      by (simp add: reaches_run_def replace_completes_def)
    from a show ?thesis
      by (simp add: commands_main_reaches [OF reaches] replace_commands_def)
  qed
  have part2: "commands (main w) =
              [[''docker'', ''build'', ''-t'', ''archon-mcp:latest'', ''.''],
               [''docker'', ''build'', ''-t'', ''archon:latest'', ''.''],
               docker_run_command (detected w) (env_file_args w)] \<and>
        (\<forall>e. result (main w) = Inl e \<longrightarrow> \<not> started (docker_run w))"
    if a: "reports_none (docker_ps w) \<or> exited_nonzero (docker_ps w)"
  proof -
    from a assms have reaches: "reaches_run w"
      by (auto simp add: reaches_run_def replace_completes_def)
    from a have none: "replace_commands w = []"
      by (cases "docker_ps w") (auto simp add: replace_commands_def)
    show ?thesis
      by (cases "docker_run w")
         (simp_all add: commands_main_reaches [OF reaches] none result_main_reaches [OF reaches])
  qed
  have part3: "result (main w) = Inl (spawn_exn e) \<and> filter is_run (commands (main w)) = []"
    if a: "docker_ps w = SpawnFailed e \<or>
               (reports_container (docker_ps w) \<and>
                 (docker_stop w = SpawnFailed e \<or>
                  (started (docker_stop w) \<and> docker_rm w = SpawnFailed e)))" for e
  proof -
    from a have r: "result (replace_running w) = Inl (spawn_exn e)"
      by (rule result_replace_running_unstartable)
    then have "\<not> replace_completes w"
      using result_replace_running [of w] by auto
    then have "filter is_run (commands (main w)) = []"
      by (simp add: run_commands_main reaches_run_def)
    moreover have "result (main w) = Inl (spawn_exn e)"
      by (simp add: result_main_from_builds [OF assms] result_main_from_replace r)
    ultimately show ?thesis by blast
  qed
  from part1 part2 part3 show ?thesis by blast
qed

theorem replace_running_container_witness:
  "engine_ok world_running \<and> ports_free world_running \<and> builds_ok world_running \<and>
   reports_container (docker_ps world_running) \<and> started (docker_stop world_running) \<and>
   started (docker_rm world_running) \<and>
   commands (main world_running) =
     [[''docker'', ''build'', ''-t'', ''archon-mcp:latest'', ''.''],
      [''docker'', ''build'', ''-t'', ''archon:latest'', ''.''],
      [''docker'', ''stop'', ''archon-container''],
      [''docker'', ''rm'', ''archon-container''],
      [''docker'', ''run'', ''-d'', ''--name'', ''archon-container'', ''-p'', ''8501:8501'',
       ''-p'', ''8100:8100'', ''archon:latest'']] \<and>
   reports_none (docker_ps world_ok) \<and>
   commands (main world_ok) =
     [[''docker'', ''build'', ''-t'', ''archon-mcp:latest'', ''.''],
      [''docker'', ''build'', ''-t'', ''archon:latest'', ''.''],
      [''docker'', ''run'', ''-d'', ''--name'', ''archon-container'', ''-p'', ''8501:8501'',
       ''-p'', ''8100:8100'', ''archon:latest'']] \<and>
   reports_container (docker_ps world_rm_missing) \<and> started (docker_stop world_rm_missing) \<and>
   docker_rm world_rm_missing = SpawnFailed NotFound \<and>
   result (main world_rm_missing) = Inl FileNotFoundError \<and>
   filter is_run (commands (main world_rm_missing)) = []"
proof -
  have d: "engine_ok world_rm_missing \<and> ports_free world_rm_missing \<and> builds_ok world_rm_missing"
    by (simp add: world_rm_missing_def world_running_def world_ok_def engine_ok_def ports_free_def
        occupied_def builds_ok_def)
  have d': "reports_container (docker_ps world_rm_missing) \<and> started (docker_stop world_rm_missing) \<and>
      docker_rm world_rm_missing = SpawnFailed NotFound"
    by (simp add: world_rm_missing_def world_running_def world_ok_def strip_def isspace_def)
  from replace_running_container [of world_rm_missing] d d'
  have missing: "result (main world_rm_missing) = Inl (spawn_exn NotFound) \<and>
      filter is_run (commands (main world_rm_missing)) = []"
    by blast
  have a: "engine_ok world_running \<and> ports_free world_running \<and> builds_ok world_running \<and>
      reports_container (docker_ps world_running) \<and> started (docker_stop world_running) \<and>
      started (docker_rm world_running)"
    by (simp add: world_running_def world_ok_def engine_ok_def ports_free_def occupied_def
        builds_ok_def strip_def isspace_def)
  have b: "detected world_running = ''standard'' \<and> env_file_args world_running = []"
    by (simp add: world_running_def world_ok_def detected_eval env_file_args_def exists_def env_file_def)
  have c: "env_file_args world_ok = []"
    by (simp add: world_ok_def env_file_args_def exists_def env_file_def)
  from replace_running_container [of world_running] a b
  have "commands (main world_running) =
     [[''docker'', ''build'', ''-t'', ''archon-mcp:latest'', ''.''],
      [''docker'', ''build'', ''-t'', ''archon:latest'', ''.''],
      [''docker'', ''stop'', ''archon-container''],
      [''docker'', ''rm'', ''archon-container''],
      [''docker'', ''run'', ''-d'', ''--name'', ''archon-container'', ''-p'', ''8501:8501'',
       ''-p'', ''8100:8100'', ''archon:latest'']]"
    by (simp add: docker_run_command_def)
  moreover from replace_running_container [of world_ok] world_ok_facts c
  have "commands (main world_ok) =
     [[''docker'', ''build'', ''-t'', ''archon-mcp:latest'', ''.''],
      [''docker'', ''build'', ''-t'', ''archon:latest'', ''.''],
      [''docker'', ''run'', ''-d'', ''--name'', ''archon-container'', ''-p'', ''8501:8501'',
       ''-p'', ''8100:8100'', ''archon:latest'']]"
    by (simp add: docker_run_command_def)
  ultimately show ?thesis
    using a world_ok_facts d' missing by simp
qed

text \<open>
  C7, as the spec states it, fails in two ways. A container-list query that cannot be
  started raises an \<open>OSError\<close>, which is no \<open>SubprocessError\<close>: it is not swallowed, it
  leaves \<open>main\<close>, and the run command is never started. And when the query reports a
  running container but the stop command cannot be started, no remove command follows.
\<close>

theorem replace_running_container_counterexample:
  "engine_ok world_ps_unstartable \<and> ports_free world_ps_unstartable \<and>
   builds_ok world_ps_unstartable \<and> docker_ps world_ps_unstartable = SpawnFailed OtherOS \<and>
   result (main world_ps_unstartable) = Inl OSError \<and>
   filter is_run (commands (main world_ps_unstartable)) = [] \<and>
   engine_ok world_stop_unstartable \<and> ports_free world_stop_unstartable \<and>
   builds_ok world_stop_unstartable \<and> reports_container (docker_ps world_stop_unstartable) \<and>
   commands (main world_stop_unstartable) =
     [[''docker'', ''build'', ''-t'', ''archon-mcp:latest'', ''.''],
      [''docker'', ''build'', ''-t'', ''archon:latest'', ''.''],
      [''docker'', ''stop'', ''archon-container'']] \<and>
   result (main world_stop_unstartable) = Inl OSError"
proof -
  have a: "engine_ok world_ps_unstartable \<and> ports_free world_ps_unstartable \<and>
      builds_ok world_ps_unstartable \<and> docker_ps world_ps_unstartable = SpawnFailed OtherOS \<and>
      \<not> reaches_run world_ps_unstartable \<and>
      build_mcp world_ps_unstartable = Exited 0 [''Successfully built''] \<and>
      build_main world_ps_unstartable = Exited 0 [''Successfully built'']"
    by (simp add: world_ps_unstartable_def world_ok_def engine_ok_def ports_free_def occupied_def
        builds_ok_def reaches_run_def replace_completes_def)
  have ra: "result (replace_running world_ps_unstartable) = Inl OSError"
    by (simp add: replace_running_def obs_monad obs_prim world_ps_unstartable_def)
  have b: "engine_ok world_stop_unstartable \<and> ports_free world_stop_unstartable \<and>
      builds_ok world_stop_unstartable \<and> reports_container (docker_ps world_stop_unstartable) \<and>
      \<not> started (docker_stop world_stop_unstartable) \<and> \<not> replace_completes world_stop_unstartable \<and>
      build_mcp world_stop_unstartable = Exited 0 [''Successfully built''] \<and>
      build_main world_stop_unstartable = Exited 0 [''Successfully built'']"
    by (simp add: world_stop_unstartable_def world_running_def world_ok_def engine_ok_def ports_free_def
        occupied_def builds_ok_def replace_completes_def strip_def isspace_def)
  have rb: "result (replace_running world_stop_unstartable) = Inl OSError"
    by (simp add: replace_running_def obs_monad obs_prim world_stop_unstartable_def world_running_def
        strip_def isspace_def)
  have "result (main world_ps_unstartable) = Inl OSError"
    using a ra
    by (simp add: result_main_engine result_check_docker_ok [THEN iffD2] result_main_from_ports
        result_main_from_env_file result_main_from_build_mcp result_main_from_build_main
        result_main_from_replace)
  moreover have "filter is_run (commands (main world_ps_unstartable)) = []"
    using a by (simp add: run_commands_main)
  moreover have "commands (main world_stop_unstartable) =
     [[''docker'', ''build'', ''-t'', ''archon-mcp:latest'', ''.''],
      [''docker'', ''build'', ''-t'', ''archon:latest'', ''.''],
      [''docker'', ''stop'', ''archon-container'']]"
    using b by (simp add: commands_main builds_ok_def replace_commands_def)
  moreover have "result (main world_stop_unstartable) = Inl OSError"
    using b rb
    by (simp add: result_main_engine result_check_docker_ok [THEN iffD2] result_main_from_ports
        result_main_from_env_file result_main_from_build_mcp result_main_from_build_main
        result_main_from_replace)
  ultimately show ?thesis
    using a b by blast
qed

lemma messages_main_engine:
  assumes "engine_ok w"
  shows "messages (main w) =
     (''Detected Docker environment: '' @ detected w) # messages (main_from_ports w (detected w))"
proof -
  from assms have e: "result (check_docker w) = Inr True"
    by (simp add: result_check_docker_ok)
  then show ?thesis
    by (simp add: main_steps obs_monad messages_check_docker_ok messages_detect result_detected)
qed

lemma occupied_filter: "filter (\<lambda>p. connect_ex w p = 0) ps = filter (occupied w) ps"
  by (rule filter_cong) (simp_all add: occupied_def)

lemma messages_main_from_ports_busy:
  assumes "\<not> ports_free w"
  shows "messages (main_from_ports w docker_env) =
     [''Error: The following ports are already in use: '' @ str_int_list (filter (occupied w) [8501, 8100]),
      ''Please stop the services using these ports or modify the port mappings.'']"
  using assms unavailable_required [of w]
  by (simp add: main_from_ports_def obs_monad obs_prim occupied_filter del: filter.simps)

lemma str_int_list_ports:
  "str_int_list [8501] = ''[8501]''"
  "str_int_list [8100] = ''[8100]''"
  "str_int_list [8501, 8100] = ''[8501, 8100]''"
  by (simp_all add: str_int_list_def str_int_def str_nat.simps digit_char_def)

text \<open>
  C2, as the code has it. If the engine check passes and at least one of the required
  ports 8501 and 8100 is occupied, \<open>main\<close> returns 1 without starting any command, and
  after the line about the environment it prints the error line with the list of exactly
  the occupied ports (in the order 8501, 8100) and the advice line. The three possible
  lists print as \<open>[8501]\<close>, \<open>[8100]\<close> and \<open>[8501, 8100]\<close>.
\<close>

theorem occupied_ports_abort:
  assumes "engine_ok w" and "occupied w 8501 \<or> occupied w 8100"
  shows "result (main w) = Inr 1 \<and> commands (main w) = [] \<and>
         messages (main w) =
           [''Detected Docker environment: '' @ detected w,
            ''Error: The following ports are already in use: ''
              @ str_int_list (filter (occupied w) [8501, 8100]),
            ''Please stop the services using these ports or modify the port mappings.''] \<and>
         str_int_list (filter (occupied w) [8501, 8100]) =
           (if occupied w 8501 \<and> occupied w 8100 then ''[8501, 8100]''
            else if occupied w 8501 then ''[8501]'' else ''[8100]'')"
proof -
  from assms(2) have busy: "\<not> ports_free w"
    by (auto simp add: ports_free_def)
  from assms(1) have e: "result (check_docker w) = Inr True"
    by (simp add: result_check_docker_ok)
  have "result (main w) = Inr 1"
    by (simp add: result_main_engine e result_main_from_ports busy)
  moreover have "commands (main w) = []"
    by (simp add: commands_main busy)
  moreover have "messages (main w) =
           [''Detected Docker environment: '' @ detected w,
            ''Error: The following ports are already in use: ''
              @ str_int_list (filter (occupied w) [8501, 8100]),
            ''Please stop the services using these ports or modify the port mappings.'']"
    by (simp only: messages_main_engine [OF assms(1)] messages_main_from_ports_busy [OF busy])
  moreover have "str_int_list (filter (occupied w) [8501, 8100]) =
           (if occupied w 8501 \<and> occupied w 8100 then ''[8501, 8100]''
            else if occupied w 8501 then ''[8501]'' else ''[8100]'')"
    using assms(2) by (auto simp add: str_int_list_ports)
  ultimately show ?thesis by blast
qed

theorem occupied_ports_abort_witness:
  "engine_ok world_port_busy \<and> occupied world_port_busy 8100 \<and> \<not> occupied world_port_busy 8501 \<and>
   result (main world_port_busy) = Inr 1 \<and> commands (main world_port_busy) = [] \<and>
   messages (main world_port_busy) =
     [''Detected Docker environment: standard'',
      ''Error: The following ports are already in use: [8100]'',
      ''Please stop the services using these ports or modify the port mappings.'']"
proof -
  have a: "engine_ok world_port_busy" "occupied world_port_busy 8100" "\<not> occupied world_port_busy 8501"
    "detected world_port_busy = ''standard''"
    by (simp_all add: world_port_busy_def world_ok_def engine_ok_def occupied_def detected_eval)
  from occupied_ports_abort [of world_port_busy] a show ?thesis
    by simp
qed

text \<open>
  C2, as the spec states it, fails: where the engine binary is absent and port 8501 is
  occupied, \<open>main\<close> stops at the engine check; the only line it prints is the one about
  the engine, and no line lists the occupied port.
\<close>

theorem occupied_ports_abort_counterexample:
  "occupied world_no_engine 8501 \<and>
   messages (main world_no_engine) = [''Error: Docker is not installed or not in PATH''] \<and>
   ''Error: The following ports are already in use: [8501]'' \<notin> set (messages (main world_no_engine))"
proof -
  have "messages (main world_no_engine) = [''Error: Docker is not installed or not in PATH'']"
    by (simp add: main_steps obs_monad check_docker_def obs_prim world_no_engine_def)
  moreover have "occupied world_no_engine 8501"
    by (simp add: world_no_engine_def occupied_def)
  ultimately show ?thesis by simp
qed

lemma messages_main_from_run:
  "messages (main_from_run w docker_env env_args) =
     [CHR 0x0A # ''=== Starting Archon container ===''] @
     (if docker_env = ''docker-toolbox'' then
        [''Note: For Docker Toolbox, you may need to use the VM'' @ [CHR 0x27] @ ''s IP address instead of localhost'']
      else []) @
     [''Running: '' @ join '' '' (docker_run_command docker_env env_args)] @
     (case docker_run w of
        SpawnFailed e \<Rightarrow> []
      | Exited rc ls \<Rightarrow>
          map strip ls @
          (if rc \<noteq> 0 then [''Error starting Archon container'']
           else [CHR 0x0A # ''=== Archon is now running! ===''] @
                (if docker_env = ''docker-toolbox'' then
                   [''-> Using Docker Toolbox:'',
                    ''   To access the Streamlit UI, you need to use the Docker VM'' @ [CHR 0x27] @ ''s IP address.'',
                    ''   Run '' @ [CHR 0x27] @ ''docker-machine ip default'' @ [CHR 0x27] @ '' to get this IP, then access:'',
                    ''   http://<docker-machine-ip>:8501'']
                 else [''-> Access the Streamlit UI at: http://localhost:8501'']) @
                [''-> MCP container is ready to use - see the MCP tab in the UI.'',
                 CHR 0x0A # ''To stop Archon, run: docker stop archon-container && docker rm archon-container'']))"
  by (cases "docker_run w")
     (simp_all add: main_from_run_def docker_run_command_def obs_monad obs_prim Let_def)

lemma messages_main_from_replace:
  "messages (main_from_replace w docker_env env_args) =
     messages (replace_running w) @
     (if replace_completes w then messages (main_from_run w docker_env env_args) else [])"
  using result_replace_running [of w]
  by (cases "result (replace_running w)") (auto simp add: main_from_replace_def obs_monad)

lemma messages_main_from_build_main:
  "messages (main_from_build_main w docker_env env_args) =
     [CHR 0x0A # ''=== Building main Archon container ==='',
      ''Running: docker build -t archon:latest .''] @
     (case build_main w of
        SpawnFailed e \<Rightarrow> []
      | Exited rc ls \<Rightarrow>
          map strip ls @
          (if rc \<noteq> 0 then [''Error building main Archon container'']
           else messages (main_from_replace w docker_env env_args)))"
  by (cases "build_main w") (simp_all add: main_from_build_main_def obs_monad obs_prim)

lemma messages_main_from_build_mcp:
  "messages (main_from_build_mcp w docker_env env_args) =
     [CHR 0x0A # ''=== Building Archon MCP container ==='',
      ''Running: docker build -t archon-mcp:latest .''] @
     (case build_mcp w of
        SpawnFailed e \<Rightarrow> []
      | Exited rc ls \<Rightarrow>
          map strip ls @
          (if rc \<noteq> 0 then [''Error building MCP container'']
           else messages (main_from_build_main w docker_env env_args)))"
  by (cases "build_mcp w") (simp_all add: main_from_build_mcp_def obs_monad obs_prim)

lemma messages_main_from_env_file:
  "messages (main_from_env_file w docker_env) =
     messages (find_env_args w) @ messages (main_from_build_mcp w docker_env (env_file_args w))"
  by (simp add: main_from_env_file_def obs_monad obs_find_env_args(2))

lemma messages_main_from_ports:
  "messages (main_from_ports w docker_env) =
     (if ports_free w then messages (main_from_env_file w docker_env)
      else [''Error: The following ports are already in use: '' @ str_int_list (filter (occupied w) [8501, 8100]),
            ''Please stop the services using these ports or modify the port mappings.''])"
  using unavailable_required [of w]
  by (simp add: main_from_ports_def obs_monad obs_prim occupied_filter del: filter.simps)

lemma messages_check_docker_failed:
  "result (check_docker w) = Inr False \<Longrightarrow>
     messages (check_docker w) \<noteq> [] \<and> is_error_message (last (messages (check_docker w)))"
  by (cases "docker_version w"; cases "docker_info_check w")
     (auto simp add: check_docker_def obs_monad obs_prim is_error_message_def
        split: spawn_error.splits if_splits)

lemma messages_main:
  "messages (main w) =
     messages (check_docker w) @
     (if engine_ok w then
        (''Detected Docker environment: '' @ detected w) # messages (main_from_ports w (detected w))
      else [])"
  using result_check_docker_ok [of w]
  by (cases "result (check_docker w)")
     (auto simp add: main_steps obs_monad messages_detect result_detected)

lemma reported_after:
  assumes "failure_is_reported n" and "result m = result n" and "messages m = pre @ messages n"
  shows "failure_is_reported m"
  using assms by (auto simp add: failure_is_reported_def split: sum.splits)

lemma reported_main_from_run: "failure_is_reported (main_from_run w docker_env env_args)"
  by (cases "docker_run w")
     (simp_all add: failure_is_reported_def result_main_from_run messages_main_from_run
        is_error_message_def)

lemma reported_main_from_replace: "failure_is_reported (main_from_replace w docker_env env_args)"
proof (cases "replace_completes w")
  case True
  then have "result (replace_running w) = Inr ()"
    by (simp add: result_replace_running)
  with True show ?thesis
    by (intro reported_after [OF reported_main_from_run [of w docker_env env_args]])
       (simp_all add: result_main_from_replace messages_main_from_replace)
next
  case False
  then obtain e where "result (replace_running w) = Inl e"
    using result_replace_running [of w] by (cases "result (replace_running w)") auto
  then show ?thesis
    by (simp add: failure_is_reported_def result_main_from_replace)
qed

lemma reported_main_from_build_main: "failure_is_reported (main_from_build_main w docker_env env_args)"
proof (cases "build_main w")
  case (SpawnFailed e)
  then show ?thesis
    by (simp add: failure_is_reported_def result_main_from_build_main)
next
  case (Exited rc ls)
  show ?thesis
  proof (cases "rc = 0")
    case True
    with Exited show ?thesis
      by (intro reported_after [OF reported_main_from_replace [of w docker_env env_args]])
         (simp_all add: result_main_from_build_main messages_main_from_build_main)
  next
    case False
    with Exited show ?thesis
      by (simp add: failure_is_reported_def result_main_from_build_main
          messages_main_from_build_main is_error_message_def)
  qed
qed

lemma reported_main_from_build_mcp: "failure_is_reported (main_from_build_mcp w docker_env env_args)"
proof (cases "build_mcp w")
  case (SpawnFailed e)
  then show ?thesis
    by (simp add: failure_is_reported_def result_main_from_build_mcp)
next
  case (Exited rc ls)
  show ?thesis
  proof (cases "rc = 0")
    case True
    with Exited show ?thesis
      by (intro reported_after [OF reported_main_from_build_main [of w docker_env env_args]])
         (simp_all add: result_main_from_build_mcp messages_main_from_build_mcp)
  next
    case False
    with Exited show ?thesis
      by (simp add: failure_is_reported_def result_main_from_build_mcp
          messages_main_from_build_mcp is_error_message_def)
  qed
qed

lemma reported_main_from_env_file: "failure_is_reported (main_from_env_file w docker_env)"
  by (intro reported_after [OF reported_main_from_build_mcp [of w docker_env "env_file_args w"]])
     (simp_all add: result_main_from_env_file messages_main_from_env_file)

lemma reported_main_from_ports: "failure_is_reported (main_from_ports w docker_env)"
proof (cases "ports_free w")
  case True
  then have "messages (main_from_ports w docker_env) = [] @ messages (main_from_env_file w docker_env)"
    by (simp add: messages_main_from_ports)
  with True show ?thesis
    by (intro reported_after [OF reported_main_from_env_file [of w docker_env]])
       (simp_all add: result_main_from_ports)
next
  case False
  then show ?thesis
    by (simp add: failure_is_reported_def result_main_from_ports messages_main_from_ports
        is_error_message_def)
qed

lemma reported_main: "failure_is_reported (main w)"
proof (cases "result (check_docker w)")
  case (Inl e)
  then show ?thesis
    by (simp add: failure_is_reported_def result_main_engine)
next
  case (Inr docker_ok)
  show ?thesis
  proof (cases docker_ok)
    case True
    with Inr have e: "engine_ok w"
      by (simp add: result_check_docker_ok [symmetric])
    have "messages (main w) =
        (messages (check_docker w) @ [''Detected Docker environment: '' @ detected w])
        @ messages (main_from_ports w (detected w))"
      by (simp add: messages_main e)
    with Inr True show ?thesis
      by (intro reported_after [OF reported_main_from_ports [of w "detected w"]])
         (simp_all add: result_main_engine)
  next
    case False
    with Inr have "\<not> engine_ok w"
      by (simp add: result_check_docker_ok [symmetric])
    moreover from Inr False have "messages (check_docker w) \<noteq> [] \<and> is_error_message (last (messages (check_docker w)))"
      by (simp add: messages_check_docker_failed)
    ultimately show ?thesis
      using Inr False by (simp add: failure_is_reported_def result_main_engine messages_main)
  qed
qed

lemma raises_check_docker:
  "(\<exists>e. result (check_docker w) = Inl e) \<longleftrightarrow>
     docker_version w = SpawnFailed OtherOS \<or>
     (exited_ok (docker_version w) \<and> docker_info_check w = SpawnFailed OtherOS)"
  by (cases "docker_version w"; cases "docker_info_check w")
     (auto simp add: result_check_docker split: spawn_error.splits)

lemma raises_main_from_run:
  "(\<exists>e. result (main_from_run w docker_env env_args) = Inl e) \<longleftrightarrow> \<not> started (docker_run w)"
  by (cases "docker_run w") (simp_all add: result_main_from_run)

lemma raises_main_from_replace:
  "(\<exists>e. result (main_from_replace w docker_env env_args) = Inl e) \<longleftrightarrow>
     \<not> replace_completes w \<or> \<not> started (docker_run w)"
  using result_replace_running [of w] raises_main_from_run [of w docker_env env_args]
  by (cases "result (replace_running w)") (auto simp add: result_main_from_replace)

lemma raises_main_from_build_main:
  "(\<exists>e. result (main_from_build_main w docker_env env_args) = Inl e) \<longleftrightarrow>
     \<not> started (build_main w) \<or>
     (exited_ok (build_main w) \<and> (\<not> replace_completes w \<or> \<not> started (docker_run w)))"
  using raises_main_from_replace [of w docker_env env_args]
  by (cases "build_main w") (auto simp add: result_main_from_build_main)

lemma raises_main_from_build_mcp:
  "(\<exists>e. result (main_from_build_mcp w docker_env env_args) = Inl e) \<longleftrightarrow>
     \<not> started (build_mcp w) \<or>
     (exited_ok (build_mcp w) \<and>
       (\<not> started (build_main w) \<or>
        (exited_ok (build_main w) \<and> (\<not> replace_completes w \<or> \<not> started (docker_run w)))))"
  using raises_main_from_build_main [of w docker_env env_args]
  by (cases "build_mcp w") (auto simp add: result_main_from_build_mcp)

lemma raises_main:
  "(\<exists>e. result (main w) = Inl e) \<longleftrightarrow> exception_escapes w"
proof (cases "result (check_docker w)")
  case (Inl e)
  then have "\<exists>e. result (check_docker w) = Inl e" by blast
  then have "docker_version w = SpawnFailed OtherOS \<or>
     (exited_ok (docker_version w) \<and> docker_info_check w = SpawnFailed OtherOS)"
    by (simp add: raises_check_docker)
  with Inl show ?thesis
    by (auto simp add: result_main_engine exception_escapes_def)
next
  case (Inr docker_ok)
  then have no: "\<not> (docker_version w = SpawnFailed OtherOS \<or>
     (exited_ok (docker_version w) \<and> docker_info_check w = SpawnFailed OtherOS))"
    using raises_check_docker [of w] by auto
  show ?thesis
  proof (cases docker_ok)
    case True
    with Inr have e: "engine_ok w"
      by (simp add: result_check_docker_ok [symmetric])
    show ?thesis
      using Inr True e no raises_main_from_build_mcp [of w "detected w" "env_file_args w"]
      by (auto simp add: result_main_engine result_main_from_ports result_main_from_env_file
          exception_escapes_def)
  next
    case False
    with Inr have "\<not> engine_ok w"
      by (simp add: result_check_docker_ok [symmetric])
    with Inr False no show ?thesis
      by (auto simp add: result_main_engine exception_escapes_def)
  qed
qed

lemma success_iff:
  "result (main w) = Inr 0 \<longleftrightarrow> reaches_run w \<and> exited_ok (docker_run w)"
proof
  assume "reaches_run w \<and> exited_ok (docker_run w)"
  then show "result (main w) = Inr 0"
    by (cases "docker_run w") (simp_all add: result_main_reaches)
next
  assume r: "result (main w) = Inr 0"
  from r have e: "engine_ok w"
    using result_check_docker_ok [of w]
    by (cases "result (check_docker w)") (auto simp add: result_main_engine split: if_splits)
  then have c: "result (check_docker w) = Inr True"
    by (simp add: result_check_docker_ok)
  from r c have p: "ports_free w"
    by (auto simp add: result_main_engine result_main_from_ports split: if_splits)
  from r c p have 1: "result (main_from_build_mcp w (detected w) (env_file_args w)) = Inr 0"
    by (simp add: result_main_engine result_main_from_ports result_main_from_env_file)
  then have b1: "exited_ok (build_mcp w)"
    by (cases "build_mcp w") (auto simp add: result_main_from_build_mcp split: if_splits)
  with 1 have 2: "result (main_from_build_main w (detected w) (env_file_args w)) = Inr 0"
    by (cases "build_mcp w") (auto simp add: result_main_from_build_mcp split: if_splits)
  then have b2: "exited_ok (build_main w)"
    by (cases "build_main w") (auto simp add: result_main_from_build_main split: if_splits)
  with 2 have 3: "result (main_from_replace w (detected w) (env_file_args w)) = Inr 0"
    by (cases "build_main w") (auto simp add: result_main_from_build_main split: if_splits)
  then have rc: "replace_completes w"
    using result_replace_running [of w]
    by (cases "result (replace_running w)") (auto simp add: result_main_from_replace)
  then have "result (replace_running w) = Inr ()"
    by (simp add: result_replace_running)
  with 3 have "result (main_from_run w (detected w) (env_file_args w)) = Inr 0"
    by (simp add: result_main_from_replace)
  then have "exited_ok (docker_run w)"
    by (cases "docker_run w") (auto simp add: result_main_from_run split: if_splits)
  with e p b1 b2 rc show "reaches_run w \<and> exited_ok (docker_run w)"
    by (simp add: reaches_run_def builds_ok_def)
qed

lemma handled_failure_no_escape: "handled_failure w \<Longrightarrow> \<not> exception_escapes w"
  by (cases "docker_version w"; cases "docker_info_check w"; cases "build_mcp w";
      cases "build_main w"; cases "docker_run w")
     (auto simp add: handled_failure_def exception_escapes_def engine_ok_def)

lemma handled_failure_no_success:
  "handled_failure w \<Longrightarrow> \<not> (reaches_run w \<and> exited_ok (docker_run w))"
  by (cases "docker_version w"; cases "docker_info_check w"; cases "build_mcp w";
      cases "build_main w"; cases "docker_run w")
     (auto simp add: handled_failure_def reaches_run_def builds_ok_def engine_ok_def)

text \<open>
  C8, as the code has it. For each failure that the script handles (the engine binary
  missing or an engine query exiting with a non-zero code, a required port occupied, a
  build or the run command exiting with a non-zero code) \<open>main\<close> returns 1, and the last
  line it has printed is the error message of the failure. Whenever a process cannot be
  started and no handler catches that (an \<open>OSError\<close> other than \<open>FileNotFoundError\<close> in
  the engine check, or a failure to start a build, the container-list query, the stop,
  the remove or the run command at a step that the run reaches), an exception leaves
  \<open>main\<close>. Whenever \<open>main\<close> returns, it returns 0 or 1: 1 after an error message, 0
  only when the run step is reached and the run command exits with 0. The statement is
  about the processes the script starts; the socket probe, the test for \<open>.env\<close> and
  printing are calls without a handler too, and here they are taken not to raise.
\<close>

theorem handled_failures_return_unstartable_escape:
  "(handled_failure w \<longrightarrow>
      result (main w) = Inr 1 \<and> messages (main w) \<noteq> [] \<and>
      is_error_message (last (messages (main w)))) \<and>
   (exception_escapes w \<longrightarrow> (\<exists>e. result (main w) = Inl e)) \<and>
   (\<forall>rc. result (main w) = Inr rc \<longrightarrow>
      (rc = 0 \<or> rc = 1) \<and>
      (rc = 1 \<longrightarrow> messages (main w) \<noteq> [] \<and> is_error_message (last (messages (main w)))) \<and>
      (rc = 0 \<longrightarrow> reaches_run w \<and> exited_ok (docker_run w)))"
proof (intro conjI)
  show "handled_failure w \<longrightarrow>
      result (main w) = Inr 1 \<and> messages (main w) \<noteq> [] \<and>
      is_error_message (last (messages (main w)))"
  proof
    assume h: "handled_failure w"
    then have "\<not> (\<exists>e. result (main w) = Inl e)"
      using raises_main [of w] handled_failure_no_escape by blast
    then obtain rc where rc: "result (main w) = Inr rc"
      by (cases "result (main w)") auto
    from h have "result (main w) \<noteq> Inr 0"
      using success_iff [of w] handled_failure_no_success by blast
    with rc reported_main [of w] show "result (main w) = Inr 1 \<and> messages (main w) \<noteq> [] \<and>
        is_error_message (last (messages (main w)))"
      by (auto simp add: failure_is_reported_def)
  qed
  show "exception_escapes w \<longrightarrow> (\<exists>e. result (main w) = Inl e)"
    using raises_main [of w] by blast
  show "\<forall>rc. result (main w) = Inr rc \<longrightarrow>
      (rc = 0 \<or> rc = 1) \<and>
      (rc = 1 \<longrightarrow> messages (main w) \<noteq> [] \<and> is_error_message (last (messages (main w)))) \<and>
      (rc = 0 \<longrightarrow> reaches_run w \<and> exited_ok (docker_run w))"
    using reported_main [of w] success_iff [of w]
    by (auto simp add: failure_is_reported_def)
qed

theorem handled_failures_return_unstartable_escape_witness:
  "handled_failure world_run_fails \<and> result (main world_run_fails) = Inr 1 \<and>
   messages (main world_run_fails) \<noteq> [] \<and>
   is_error_message (last (messages (main world_run_fails))) \<and>
   handled_failure world_port_busy \<and> result (main world_port_busy) = Inr 1 \<and>
   exception_escapes world_ps_unstartable \<and> isl (result (main world_ps_unstartable)) \<and>
   reaches_run world_ok \<and> exited_ok (docker_run world_ok)"
proof -
  have a: "handled_failure world_run_fails"
    by (simp add: handled_failure_def world_run_fails_def world_ok_def engine_ok_def ports_free_def
        occupied_def replace_completes_def strip_def)
  have b: "handled_failure world_port_busy"
    by (simp add: handled_failure_def world_port_busy_def world_ok_def engine_ok_def ports_free_def
        occupied_def)
  have c: "exception_escapes world_ps_unstartable"
    by (simp add: exception_escapes_def world_ps_unstartable_def world_ok_def engine_ok_def
        ports_free_def occupied_def replace_completes_def)
  have d: "reaches_run world_ok \<and> exited_ok (docker_run world_ok)"
    using world_ok_facts by (simp add: reaches_run_def replace_completes_def)
  have zero: "result (main world_ok) = Inr 0"
    using d by (cases "docker_run world_ok") (simp_all add: result_main_reaches)
  from handled_failures_return_unstartable_escape [of world_run_fails] a
  have "result (main world_run_fails) = Inr 1 \<and> messages (main world_run_fails) \<noteq> [] \<and>
      is_error_message (last (messages (main world_run_fails)))"
    by blast
  moreover from handled_failures_return_unstartable_escape [of world_port_busy] b
  have "result (main world_port_busy) = Inr 1"
    by blast
  moreover from handled_failures_return_unstartable_escape [of world_ps_unstartable] c
  have "isl (result (main world_ps_unstartable))"
    by auto
  moreover from handled_failures_return_unstartable_escape [of world_ok] zero
  have "reaches_run world_ok \<and> exited_ok (docker_run world_ok)"
    by blast
  ultimately show ?thesis
    using a b c by blast
qed

text \<open>
  C8, as the spec states it, fails: where the \<open>mcp\<close> directory is missing, \<open>Popen\<close> in
  \<open>run_command\<close> raises \<open>FileNotFoundError\<close> for the first build, no handler catches
  it, and the exception leaves \<open>main\<close> instead of an exit code.
\<close>

theorem failures_return_counterexample:
  "engine_ok world_no_mcp_dir \<and> ports_free world_no_mcp_dir \<and>
   build_mcp world_no_mcp_dir = SpawnFailed NotFound \<and>
   result (main world_no_mcp_dir) = Inl FileNotFoundError \<and>
   commands (main world_no_mcp_dir) = [[''docker'', ''build'', ''-t'', ''archon-mcp:latest'', ''.'']]"
proof -
  have a: "engine_ok world_no_mcp_dir \<and> ports_free world_no_mcp_dir \<and>
      build_mcp world_no_mcp_dir = SpawnFailed NotFound"
    by (simp add: world_no_mcp_dir_def world_ok_def engine_ok_def ports_free_def occupied_def)
  then have "result (main world_no_mcp_dir) = Inl FileNotFoundError"
    by (simp add: result_main_engine result_check_docker_ok [THEN iffD2] result_main_from_ports
        result_main_from_env_file result_main_from_build_mcp)
  moreover from a have "commands (main world_no_mcp_dir) = [[''docker'', ''build'', ''-t'', ''archon-mcp:latest'', ''.'']]"
    by (simp add: commands_main)
  ultimately show ?thesis
    using a by blast
qed

lemma without_alias_run_command:
  "without_alias (docker_run_command docker_env (env_file_args w)) =
     docker_run_command ''standard'' (env_file_args w)"
  by (simp add: docker_run_command_def env_file_args_def)

lemma without_alias_other_commands:
  "without_alias [''docker'', ''build'', ''-t'', ''archon-mcp:latest'', ''.''] =
     [''docker'', ''build'', ''-t'', ''archon-mcp:latest'', ''.'']"
  "without_alias [''docker'', ''build'', ''-t'', ''archon:latest'', ''.''] =
     [''docker'', ''build'', ''-t'', ''archon:latest'', ''.'']"
  "without_alias [''docker'', ''stop'', ''archon-container''] = [''docker'', ''stop'', ''archon-container'']"
  "without_alias [''docker'', ''rm'', ''archon-container''] = [''docker'', ''rm'', ''archon-container'']"
  by simp_all

lemma result_any_environment:
  "result (main_from_ports w docker_env) = result (main_from_ports w docker_env')"
  by (simp add: result_main_from_ports result_main_from_env_file result_main_from_build_mcp
      result_main_from_build_main result_main_from_replace result_main_from_run
      split: proc_outcome.splits sum.splits)

lemmas line_kinds = environment_dependent_def stated_difference_def is_final_instruction_def
  is_run_echo_def is_environment_line_def

lemma messages_main_from_run_any:
  "filter (\<lambda>s. \<not> environment_dependent s) (messages (main_from_run w docker_env env_args)) =
   filter (\<lambda>s. \<not> environment_dependent s) (messages (main_from_run w docker_env' env_args))"
  by (cases "docker_run w")
     (simp_all add: messages_main_from_run docker_run_command_def line_kinds)

lemma messages_main_from_replace_any:
  "filter (\<lambda>s. \<not> environment_dependent s) (messages (main_from_replace w docker_env env_args)) =
   filter (\<lambda>s. \<not> environment_dependent s) (messages (main_from_replace w docker_env' env_args))"
  by (simp add: messages_main_from_replace messages_main_from_run_any [of w docker_env env_args docker_env'])

lemma messages_main_from_build_main_any:
  "filter (\<lambda>s. \<not> environment_dependent s) (messages (main_from_build_main w docker_env env_args)) =
   filter (\<lambda>s. \<not> environment_dependent s) (messages (main_from_build_main w docker_env' env_args))"
  by (cases "build_main w")
     (simp_all add: messages_main_from_build_main
        messages_main_from_replace_any [of w docker_env env_args docker_env'])

lemma messages_main_from_build_mcp_any:
  "filter (\<lambda>s. \<not> environment_dependent s) (messages (main_from_build_mcp w docker_env env_args)) =
   filter (\<lambda>s. \<not> environment_dependent s) (messages (main_from_build_mcp w docker_env' env_args))"
  by (cases "build_mcp w")
     (simp_all add: messages_main_from_build_mcp
        messages_main_from_build_main_any [of w docker_env env_args docker_env'])

lemma messages_main_from_ports_any:
  "filter (\<lambda>s. \<not> environment_dependent s) (messages (main_from_ports w docker_env)) =
   filter (\<lambda>s. \<not> environment_dependent s) (messages (main_from_ports w docker_env'))"
  by (simp add: messages_main_from_ports messages_main_from_env_file
        messages_main_from_build_mcp_any [of w docker_env "env_file_args w" docker_env'])

lemma environment_line_dropped:
  "filter (\<lambda>s. \<not> environment_dependent s) ((''Detected Docker environment: '' @ docker_env) # ms) =
   filter (\<lambda>s. \<not> environment_dependent s) ms"
  by (simp add: line_kinds)

lemma unavailable_among_detection [simp]:
  "unavailable_among (w\<lparr>platform_system := p, docker_info_detect := d\<rparr>) ps = unavailable_among w ps"
  by (induction ps) (simp_all add: unavailable_among.simps is_port_available_def)

lemma main_from_ports_detection:
  "main_from_ports (w\<lparr>platform_system := p, docker_info_detect := d\<rparr>) docker_env =
   main_from_ports w docker_env"
  by (simp add: main_from_ports_def main_from_env_file_def find_env_args_def main_from_build_mcp_def
      main_from_build_main_def main_from_replace_def replace_running_def main_from_run_def exists_def
      cong: if_cong)

lemma check_docker_detection:
  "check_docker (w\<lparr>platform_system := p, docker_info_detect := d\<rparr>) = check_docker w"
  by (simp add: check_docker_def)

lemma engine_ok_detection:
  "engine_ok (w\<lparr>platform_system := p, docker_info_detect := d\<rparr>) = engine_ok w"
  by (simp add: engine_ok_def)

lemma commands_up_to_run_alias:
  "map (\<lambda>c. if is_run c then without_alias c else c) (commands (main_from_ports w docker_env)) =
   map (\<lambda>c. if is_run c then without_alias c else c) (commands (main_from_ports w docker_env'))"
  by (simp add: commands_main_from_ports commands_main_from_env_file commands_main_from_build_mcp
      commands_main_from_build_main commands_main_from_replace replace_commands_def
      kinds_of_commands without_alias_run_command
      del: without_alias.simps)

lemma other_commands_any_environment:
  "filter (\<lambda>c. \<not> is_run c) (commands (main_from_ports w docker_env)) =
   filter (\<lambda>c. \<not> is_run c) (commands (main_from_ports w docker_env'))"
  by (simp add: commands_main_from_ports commands_main_from_env_file commands_main_from_build_mcp
      commands_main_from_build_main commands_main_from_replace replace_commands_def
      kinds_of_commands)

text \<open>
  C9, as the code has it. Two runs that differ only in what the detection reads (the
  platform and the daemon-info text it queries), and so may detect any two environments,
  start the same sequence of commands, where the run command is compared up to its
  host-gateway alias flag and the build, stop and remove commands are the same as they
  stand; and they end with the same exit code or exception. Their printed lines agree
  except for the line that names the detected environment, the Docker Toolbox note
  before the run, the echo of the run command, and the final instructions.
\<close>

theorem environment_changes_run_flag_and_lines_only:
  "map (\<lambda>c. if is_run c then without_alias c else c)
     (commands (main (w\<lparr>platform_system := p, docker_info_detect := d\<rparr>))) =
   map (\<lambda>c. if is_run c then without_alias c else c) (commands (main w)) \<and>
   filter (\<lambda>c. \<not> is_run c) (commands (main (w\<lparr>platform_system := p, docker_info_detect := d\<rparr>))) =
   filter (\<lambda>c. \<not> is_run c) (commands (main w)) \<and>
   result (main (w\<lparr>platform_system := p, docker_info_detect := d\<rparr>)) = result (main w) \<and>
   filter (\<lambda>s. \<not> environment_dependent s)
     (messages (main (w\<lparr>platform_system := p, docker_info_detect := d\<rparr>))) =
   filter (\<lambda>s. \<not> environment_dependent s) (messages (main w))"
proof -
  let ?w' = "w\<lparr>platform_system := p, docker_info_detect := d\<rparr>"
  have "map (\<lambda>c. if is_run c then without_alias c else c) (commands (main ?w')) =
      map (\<lambda>c. if is_run c then without_alias c else c) (commands (main w))"
    using commands_up_to_run_alias [of w "detected ?w'" "detected w"]
    by (simp add: commands_main_engine engine_ok_detection main_from_ports_detection)
  moreover have "filter (\<lambda>c. \<not> is_run c) (commands (main ?w')) =
      filter (\<lambda>c. \<not> is_run c) (commands (main w))"
    using other_commands_any_environment [of w "detected ?w'" "detected w"]
    by (simp add: commands_main_engine engine_ok_detection main_from_ports_detection)
  moreover have "result (main ?w') = result (main w)"
    using result_any_environment [of w "detected ?w'" "detected w"]
    by (cases "result (check_docker w)")
       (simp_all add: result_main_engine check_docker_detection main_from_ports_detection)
  moreover have "filter (\<lambda>s. \<not> environment_dependent s) (messages (main ?w')) =
      filter (\<lambda>s. \<not> environment_dependent s) (messages (main w))"
  proof -
    have m': "messages (main ?w') =
        messages (check_docker w) @
        (if engine_ok w then
           (''Detected Docker environment: '' @ detected ?w') # messages (main_from_ports w (detected ?w'))
         else [])"
      by (simp only: messages_main engine_ok_detection check_docker_detection main_from_ports_detection)
    have eq: "filter (\<lambda>s. \<not> environment_dependent s) (messages (main_from_ports w (detected ?w'))) =
        filter (\<lambda>s. \<not> environment_dependent s) (messages (main_from_ports w (detected w)))"
      by (rule messages_main_from_ports_any)
    show ?thesis
    proof (cases "engine_ok w")
      case True
      then show ?thesis
        by (simp only: m' messages_main [of w] if_True filter_append environment_line_dropped eq)
    next
      case False
      then show ?thesis
        by (simp only: m' messages_main [of w] if_False)
    qed
  qed
  ultimately show ?thesis by blast
qed

theorem environment_changes_run_flag_and_lines_only_witness:
  "map (\<lambda>c. if is_run c then without_alias c else c) (commands (main world_wsl)) =
   map (\<lambda>c. if is_run c then without_alias c else c) (commands (main world_ok)) \<and>
   filter (\<lambda>c. \<not> is_run c) (commands (main world_wsl)) =
   filter (\<lambda>c. \<not> is_run c) (commands (main world_ok)) \<and>
   result (main world_wsl) = result (main world_ok) \<and>
   filter (\<lambda>s. \<not> environment_dependent s) (messages (main world_wsl)) =
   filter (\<lambda>s. \<not> environment_dependent s) (messages (main world_ok)) \<and>
   map (\<lambda>c. if is_run c then without_alias c else c) (commands (main world_toolbox)) =
   map (\<lambda>c. if is_run c then without_alias c else c) (commands (main world_ok)) \<and>
   result (main world_toolbox) = result (main world_ok) \<and>
   filter (\<lambda>s. \<not> environment_dependent s) (messages (main world_toolbox)) =
   filter (\<lambda>s. \<not> environment_dependent s) (messages (main world_ok))"
  using environment_changes_run_flag_and_lines_only
      [where w = world_ok and p = "''Windows''" and d = "Exited 0 ''OS: VirtualBox''"]
    environment_changes_run_flag_and_lines_only
      [where w = world_ok and p = "''Windows''" and d = "Exited 0 ''Kernel: WSL2''"]
  by (simp add: world_toolbox_def world_wsl_def)

lemma messages_replace_running_none:
  "reports_none (docker_ps w) \<Longrightarrow> messages (replace_running w) = []"
  by (cases "docker_ps w") (simp_all add: replace_running_def obs_monad obs_prim)

text \<open>
  C9, as the spec states it, fails: the flag of the run command (with its echo) and the
  final instructions are not the only differences. The script prints the detected
  environment right after detecting it, and for Docker Toolbox it prints a note before
  the run; both lines differ between runs that differ only in the detected environment.
\<close>

theorem environment_counterexample:
  "world_wsl = world_ok\<lparr>platform_system := ''Windows'', docker_info_detect := Exited 0 ''Kernel: WSL2''\<rparr> \<and>
   filter (\<lambda>s. \<not> stated_difference s) (messages (main world_wsl)) \<noteq>
   filter (\<lambda>s. \<not> stated_difference s) (messages (main world_ok)) \<and>
   world_toolbox = world_ok\<lparr>platform_system := ''Windows'', docker_info_detect := Exited 0 ''OS: VirtualBox''\<rparr> \<and>
   \<not> stated_difference (''Note: For Docker Toolbox, you may need to use the VM'' @ [CHR 0x27] @ ''s IP address instead of localhost'') \<and>
   (''Note: For Docker Toolbox, you may need to use the VM'' @ [CHR 0x27] @ ''s IP address instead of localhost'')
     \<in> set (messages (main world_toolbox)) \<and>
   (''Note: For Docker Toolbox, you may need to use the VM'' @ [CHR 0x27] @ ''s IP address instead of localhost'')
     \<notin> set (messages (main world_ok))"
proof -
  have wsl_text: "str_in ''wsl'' (lower ''Kernel: WSL2'')"
    by (simp add: string_eval)
  have wsl: "engine_ok world_wsl \<and> messages (check_docker world_wsl) = [] \<and>
      detected world_wsl = ''docker-desktop''"
    using wsl_text
    by (simp add: world_wsl_def world_ok_def engine_ok_def detected_eval
        messages_check_docker_ok result_check_docker_ok)
  have ok: "engine_ok world_ok \<and> messages (check_docker world_ok) = [] \<and>
      detected world_ok = ''standard''"
    using world_ok_facts by (simp add: messages_check_docker_ok result_check_docker_ok)
  have "hd (filter (\<lambda>s. \<not> stated_difference s) (messages (main world_wsl))) =
      ''Detected Docker environment: docker-desktop''"
    using wsl by (simp add: messages_main stated_difference_def is_final_instruction_def is_run_echo_def)
  moreover have "hd (filter (\<lambda>s. \<not> stated_difference s) (messages (main world_ok))) =
      ''Detected Docker environment: standard''"
    using ok by (simp add: messages_main stated_difference_def is_final_instruction_def is_run_echo_def)
  ultimately have differ: "filter (\<lambda>s. \<not> stated_difference s) (messages (main world_wsl)) \<noteq>
      filter (\<lambda>s. \<not> stated_difference s) (messages (main world_ok))"
  proof -
    assume a: "hd (filter (\<lambda>s. \<not> stated_difference s) (messages (main world_wsl))) =
        ''Detected Docker environment: docker-desktop''"
      and b: "hd (filter (\<lambda>s. \<not> stated_difference s) (messages (main world_ok))) =
        ''Detected Docker environment: standard''"
    show ?thesis
    proof
      assume "filter (\<lambda>s. \<not> stated_difference s) (messages (main world_wsl)) =
          filter (\<lambda>s. \<not> stated_difference s) (messages (main world_ok))"
      then have "hd (filter (\<lambda>s. \<not> stated_difference s) (messages (main world_wsl))) =
          hd (filter (\<lambda>s. \<not> stated_difference s) (messages (main world_ok)))"
        by simp
      with a b show False by simp
    qed
  qed
  have tb_text:
    "\<not> (str_in ''wsl'' (lower ''OS: VirtualBox'') \<or> str_in ''microsoft'' (lower ''OS: VirtualBox''))"
    "str_in ''virtualbox'' (lower ''OS: VirtualBox'')"
    by (simp_all add: string_eval)
  have tb: "engine_ok world_toolbox \<and> ports_free world_toolbox \<and>
      build_mcp world_toolbox = Exited 0 [''Successfully built''] \<and>
      build_main world_toolbox = Exited 0 [''Successfully built''] \<and>
      replace_completes world_toolbox \<and> detected world_toolbox = ''docker-toolbox''"
    using tb_text
    by (simp add: world_toolbox_def world_ok_def engine_ok_def ports_free_def occupied_def
        replace_completes_def strip_def detected_eval)
  have note_in: "(''Note: For Docker Toolbox, you may need to use the VM'' @ [CHR 0x27] @ ''s IP address instead of localhost'')
     \<in> set (messages (main world_toolbox))"
    using tb
    by (simp add: messages_main messages_main_from_ports messages_main_from_env_file
        messages_main_from_build_mcp messages_main_from_build_main messages_main_from_replace
        messages_main_from_run)
  have okw: "ports_free world_ok \<and>
      build_mcp world_ok = Exited 0 [''Successfully built''] \<and>
      build_main world_ok = Exited 0 [''Successfully built''] \<and>
      replace_completes world_ok \<and> reports_none (docker_ps world_ok) \<and>
      docker_run world_ok = Exited 0 [''4f1c2d3e5a6b''] \<and> \<not> exists world_ok env_file"
    by (simp add: world_ok_def ports_free_def occupied_def replace_completes_def strip_def
        exists_def env_file_def)
  have note_out: "(''Note: For Docker Toolbox, you may need to use the VM'' @ [CHR 0x27] @ ''s IP address instead of localhost'')
     \<notin> set (messages (main world_ok))"
    using ok okw
    by (simp add: messages_main messages_main_from_ports messages_main_from_env_file
        messages_main_from_build_mcp messages_main_from_build_main messages_main_from_replace
        messages_main_from_run messages_replace_running_none obs_find_env_args
        docker_run_command_def env_file_args_def strip_def isspace_def)
  have "\<not> stated_difference (''Note: For Docker Toolbox, you may need to use the VM'' @ [CHR 0x27] @ ''s IP address instead of localhost'')"
    by (simp add: stated_difference_def is_final_instruction_def is_run_echo_def)
  with differ note_in note_out show ?thesis
    by (simp add: world_wsl_def world_toolbox_def)
qed

end
